theory Spec2Isabelle
  imports Complex_Main "HOL-Library.Sublist"
begin

section \<open>Python values and strings\<close>

text \<open>
  A Python \<open>str\<close> is modelled as a \<open>string\<close>, every \<open>char\<close> standing for one code point
  in the range U+0000 .. U+00FF.  Code points above U+00FF are outside the model.
  The helpers below follow \<open>str.lower\<close>, \<open>str.strip\<close>, the \<open>in\<close> operator on strings
  and \<open>str.join\<close> on that range.
\<close>

definition py_lower_char :: "char \<Rightarrow> char" where
  "py_lower_char c =
     (let n = (of_char c :: nat)
      in if (65 \<le> n \<and> n \<le> 90) \<or> (192 \<le> n \<and> n \<le> 222 \<and> n \<noteq> 215)
         then char_of (n + 32) else c)"

definition py_lower :: "string \<Rightarrow> string" where
  "py_lower s = map py_lower_char s"

definition py_isspace :: "char \<Rightarrow> bool" where
  "py_isspace c =
     (let n = (of_char c :: nat)
      in (9 \<le> n \<and> n \<le> 13) \<or> (28 \<le> n \<and> n \<le> 32) \<or> n = 133 \<or> n = 160)"

definition py_strip :: "string \<Rightarrow> string" where
  "py_strip s = rev (dropWhile py_isspace (rev (dropWhile py_isspace s)))"

fun py_in :: "string \<Rightarrow> string \<Rightarrow> bool" where
  "py_in needle [] = (needle = [])"
| "py_in needle (c # cs) = (prefix needle (c # cs) \<or> py_in needle cs)"

fun py_join :: "string \<Rightarrow> string list \<Rightarrow> string" where
  "py_join sep [] = []"
| "py_join sep [x] = x"
| "py_join sep (x # y # ys) = x @ sep @ py_join sep (y # ys)"

datatype error =
    ValueError string
  | ImportError string
  | ExpatError

section \<open>Address column resolution\<close>

definition find_address_column :: "string list \<Rightarrow> string \<Rightarrow> error + string" where
  "find_address_column headers column_name =
     (if column_name \<in> set headers then Inr column_name
      else
        (let address_columns = filter (\<lambda>col. py_in ''address'' (py_lower col)) headers
         in case address_columns of
              c # _ \<Rightarrow> Inr c
            | [] \<Rightarrow> Inl (ValueError (''Column '' @ [CHR 0x27] @ column_name @ [CHR 0x27]
                        @ '' not found in CSV. Available columns: ''
                        @ py_join '', '' headers))))"

section \<open>Rows, floats and effects\<close>

text \<open>
  A row produced by \<open>csv.DictReader\<close> maps every column name to a \<open>str\<close>, or to
  \<open>None\<close> when the line is shorter than the header.  A row is kept as the list of its
  items in column order.  (Lines longer than the header, which add an entry under the key
  \<open>None\<close> and make \<open>ElementTree.tostring\<close> raise \<open>TypeError\<close> once such a row
  becomes a marker, are outside the model.)
\<close>

datatype cell = Str string | NoneV

type_synonym row = "(string \<times> cell) list"

fun truthy :: "cell \<Rightarrow> bool" where
  "truthy (Str s) = (s \<noteq> [])"
| "truthy NoneV = False"

fun py_str :: "cell \<Rightarrow> string" where
  "py_str (Str s) = s"
| "py_str NoneV = ''None''"

definition dict_get :: "row \<Rightarrow> string \<Rightarrow> cell \<Rightarrow> cell" where
  "dict_get r k d = (case map_of r k of Some v \<Rightarrow> v | None \<Rightarrow> d)"

fun str_nat :: "nat \<Rightarrow> string" where
  "str_nat n = (if n < 10 then [char_of (48 + n)]
                else str_nat (n div 10) @ [char_of (48 + n mod 10)])"

text \<open>
  Python floats stay abstract: the type \<open>'f\<close> with the three operations the program
  uses, \<open>float(s)\<close> on a string (\<open>None\<close> for \<open>ValueError\<close>), \<open>float(0)\<close> and the
  text \<open>f"{x}"\<close>.
\<close>

record 'f float_ops =
  fparse :: "string \<Rightarrow> 'f option"
  fzero :: 'f
  frepr :: "'f \<Rightarrow> string"

text \<open>
  The answer of \<open>geocoder.geocode(address, timeout=10)\<close>: a location, \<open>None\<close>, or one
  of the exceptions the resolver catches (with the text of the exception).
\<close>

datatype 'f lookup =
    Location (latitude: 'f) (longitude: 'f)
  | NoResult
  | GeocoderTimedOut string
  | GeocoderServiceError string
  | OtherException string

text \<open>
  Everything the program does to the outside, in the order it happens: the sleep, the
  outbound lookup, and each \<open>print\<close> with the values interpolated into its message.
\<close>

datatype effect =
    Sleep rat
  | Geocode string nat
  | Print_GeocodingError string string
  | Print_UnexpectedError string string
  | Print_Progress nat nat string
  | Print_Found nat
  | Print_UsingColumns
  | Print_Skipping nat
  | Print_GeocodingAddresses
  | Print_GeocodingUnique nat
  | Print_Warning string
  | Print_Success nat nat
  | Print_Generating nat

type_synonym 'f coords = "'f \<times> 'f"
type_synonym 'f cache = "string \<rightharpoonup> 'f coords option"

section \<open>The address resolver\<close>

text \<open>
  The delay is taken not to be negative, as the default 1.0 that \<open>batch_geocode\<close>
  uses is; \<open>time.sleep\<close> raises on a negative one.
\<close>

definition geocode_address ::
  "(string \<Rightarrow> 'f lookup) \<Rightarrow> string \<Rightarrow> 'f cache \<Rightarrow> rat
     \<Rightarrow> 'f coords option \<times> 'f cache \<times> effect list" where
  "geocode_address geocoder address cache delay =
     (if address = [] \<or> py_strip address = [] then (None, cache, [])
      else case cache address of
        Some r \<Rightarrow> (r, cache, [])
      | None \<Rightarrow>
          (case geocoder address of
             Location lat lon \<Rightarrow>
               (Some (lon, lat), cache(address \<mapsto> Some (lon, lat)),
                [Sleep delay, Geocode address 10])
           | NoResult \<Rightarrow>
               (None, cache(address \<mapsto> None), [Sleep delay, Geocode address 10])
           | GeocoderTimedOut e \<Rightarrow>
               (None, cache(address \<mapsto> None),
                [Sleep delay, Geocode address 10, Print_GeocodingError address e])
           | GeocoderServiceError e \<Rightarrow>
               (None, cache(address \<mapsto> None),
                [Sleep delay, Geocode address 10, Print_GeocodingError address e])
           | OtherException e \<Rightarrow>
               (None, cache(address \<mapsto> None),
                [Sleep delay, Geocode address 10, Print_UnexpectedError address e])))"

text \<open>The loop of \<open>batch_geocode\<close>; \<open>geocode_address\<close> is called with its default delay.\<close>

fun batch_loop ::
  "(string \<Rightarrow> 'f lookup) \<Rightarrow> nat \<Rightarrow> nat \<Rightarrow> string list \<Rightarrow> 'f cache \<Rightarrow> 'f cache
     \<Rightarrow> 'f cache \<times> 'f cache \<times> effect list" where
  "batch_loop geocoder tot idx [] cache results = (results, cache, [])"
| "batch_loop geocoder tot idx (address # rest) cache results =
     (case geocode_address geocoder address cache 1 of
        (coordinates, cache', effs) \<Rightarrow>
          (case batch_loop geocoder tot (idx + 1) rest cache' (results(address \<mapsto> coordinates)) of
             (results', cache'', effs') \<Rightarrow>
               (results', cache'', Print_Progress idx tot (take 50 address) # effs @ effs')))"

definition batch_geocode ::
  "bool \<Rightarrow> (string \<Rightarrow> 'f lookup) \<Rightarrow> string list \<Rightarrow> error + 'f cache \<times> effect list" where
  "batch_geocode geopy_available geocoder addresses =
     (if \<not> geopy_available
      then Inl (ImportError ''geopy is required for geocoding. Install with: pip install geopy'')
      else case batch_loop geocoder (length addresses) 1 addresses Map.empty Map.empty of
             (results, cache, effs) \<Rightarrow> Inr (results, effs))"

section \<open>The document serializer\<close>

record 'f placemark =
  pm_name :: cell
  pm_coordinates :: "'f coords"
  pm_description :: cell
  pm_extended_data :: "(string \<times> cell) list"

text \<open>An \<open>ElementTree\<close> element: tag, attributes, text and children.\<close>

datatype element =
  Element (el_tag: string) (el_attrib: "(string \<times> string) list")
          (el_text: "string option") (el_children: "element list")

definition text_element :: "string \<Rightarrow> string \<Rightarrow> element" where
  "text_element tg t = Element tg [] (Some t) []"

definition default_style :: element where
  "default_style =
     Element ''Style'' [(''id'', ''defaultStyle'')] None
       [Element ''IconStyle'' [] None
          [text_element ''color'' ''ff0000ff'',
           text_element ''scale'' ''1.0'',
           Element ''Icon'' [] None
             [text_element ''href''
                ''http://maps.google.com/mapfiles/kml/pushpin/red-pushpin.png'']]]"

definition table_row :: "string \<times> cell \<Rightarrow> string" where
  "table_row kv = ''<tr><td><b>'' @ fst kv @ ''</b></td><td>'' @ py_str (snd kv) @ ''</td></tr>''"

definition description_text :: "'f placemark \<Rightarrow> string" where
  "description_text pm =
     (let desc_text = py_str (pm_description pm)
      in if pm_extended_data pm \<noteq> []
         then py_join [CHR 0x0A]
                ([desc_text, ''<![CDATA[<table border='' @ [CHR 0x27] @ ''1'' @ [CHR 0x27] @ ''>'']
                 @ map table_row (pm_extended_data pm)
                 @ [''</table>]]>''])
         else desc_text)"

definition data_element :: "string \<times> cell \<Rightarrow> element" where
  "data_element kv =
     Element ''Data'' [(''name'', fst kv)] None [text_element ''value'' (py_str (snd kv))]"

definition placemark_element :: "'f float_ops \<Rightarrow> 'f placemark \<Rightarrow> element" where
  "placemark_element ops pm =
     Element ''Placemark'' [] None
       ([text_element ''name'' (py_str (pm_name pm))]
        @ (if truthy (pm_description pm)
           then [text_element ''description'' (description_text pm)] else [])
        @ [text_element ''styleUrl'' ''#defaultStyle'']
        @ (if pm_extended_data pm \<noteq> []
           then [Element ''ExtendedData'' [] None (map data_element (pm_extended_data pm))]
           else [])
        @ [Element ''Point'' [] None
             [text_element ''coordinates''
                (frepr ops (fst (pm_coordinates pm)) @ '','' @
                 frepr ops (snd (pm_coordinates pm)) @ '',0'')]])"

definition kml_tree :: "'f float_ops \<Rightarrow> 'f placemark list \<Rightarrow> string \<Rightarrow> element" where
  "kml_tree ops pms document_name =
     Element ''kml'' [(''xmlns'', ''http://www.opengis.net/kml/2.2'')] None
       [Element ''Document'' [] None
          ([text_element ''name'' document_name, default_style]
           @ map (placemark_element ops) pms)]"

text \<open>
  The last three lines of \<open>generate_kml\<close> hand the tree to the Python standard library
  (here as in Python 3.11): \<open>ElementTree.tostring\<close>, \<open>minidom.parseString\<close> and
  \<open>toprettyxml(indent="  ")\<close>.  \<open>tostring\<close> writes every text and attribute value;
  \<open>parseString\<close> raises \<open>ExpatError\<close> when one of them holds a control character
  other than tab, line feed and carriage return, and reads a carriage return in element
  text (with a line feed after it, if any) as one line feed; \<open>toprettyxml\<close> follows
  \<open>minidom\<close>'s \<open>writexml\<close>: text and attribute values are written with \<open>&\<close>,
  \<open><\<close>, the double quote and \<open>>\<close> replaced by their entities, and an element whose
  only child is a text node is written on one line.
\<close>

definition xml_char :: "char \<Rightarrow> bool" where
  "xml_char c = (let n = (of_char c :: nat) in 32 \<le> n \<or> n = 9 \<or> n = 10 \<or> n = 13)"

fun well_formed :: "element \<Rightarrow> bool" where
  "well_formed (Element tg attrs txt kids) =
     ((\<forall>kv \<in> set attrs. \<forall>c \<in> set (snd kv). xml_char c) \<and>
      (case txt of Some t \<Rightarrow> (\<forall>c \<in> set t. xml_char c) | None \<Rightarrow> True) \<and>
      (\<forall>k \<in> set kids. well_formed k))"

fun line_ends_from :: "bool \<Rightarrow> string \<Rightarrow> string" where
  "line_ends_from after_cr [] = []"
| "line_ends_from after_cr (c # cs) =
     (if c = CHR 0x0D then CHR 0x0A # line_ends_from True cs
      else if c = CHR 0x0A \<and> after_cr then line_ends_from False cs
      else c # line_ends_from False cs)"

definition line_ends :: "string \<Rightarrow> string" where
  "line_ends t = line_ends_from False t"

fun escape_char :: "char \<Rightarrow> string" where
  "escape_char c =
     (if c = CHR ''&'' then ''&amp;''
      else if c = CHR ''<'' then ''&lt;''
      else if c = CHR 0x22 then ''&quot;''
      else if c = CHR ''>'' then ''&gt;''
      else [c])"

definition escape_text :: "string \<Rightarrow> string" where
  "escape_text s = concat (map escape_char s)"

definition write_attrib :: "string \<times> string \<Rightarrow> string" where
  "write_attrib kv = '' '' @ fst kv @ ''='' @ [CHR 0x22] @ escape_text (snd kv) @ [CHR 0x22]"

fun writexml :: "string \<Rightarrow> element \<Rightarrow> string" where
  "writexml indent (Element tg attrs txt kids) =
     indent @ ''<'' @ tg @ concat (map write_attrib attrs) @
     (let t = (case txt of Some t \<Rightarrow> line_ends t | None \<Rightarrow> [])
      in if t = [] \<and> kids = [] then ''/>'' @ [CHR 0x0A]
         else if kids = [] then ''>'' @ escape_text t @ ''</'' @ tg @ ''>'' @ [CHR 0x0A]
         else ''>'' @ [CHR 0x0A]
              @ (if t = [] then [] else indent @ ''  '' @ escape_text t @ [CHR 0x0A])
              @ concat (map (writexml (indent @ ''  '')) kids)
              @ indent @ ''</'' @ tg @ ''>'' @ [CHR 0x0A])"

definition toprettyxml :: "element \<Rightarrow> string" where
  "toprettyxml doc =
     ''<?xml version='' @ [CHR 0x22] @ ''1.0'' @ [CHR 0x22] @ '' ?>'' @ [CHR 0x0A] @ writexml [] doc"

definition generate_kml :: "'f float_ops \<Rightarrow> 'f placemark list \<Rightarrow> string \<Rightarrow> error + string" where
  "generate_kml ops pms document_name =
     (let kml = kml_tree ops pms document_name
      in if well_formed kml then Inr (toprettyxml kml) else Inl ExpatError)"

section \<open>The conversion\<close>

text \<open>\<open>if name_column\<close>: the option is given and is not the empty string.\<close>

fun given :: "string option \<Rightarrow> bool" where
  "given None = False"
| "given (Some c) = (c \<noteq> [])"

text \<open>\<open>float(row.get(column, 0))\<close>; \<open>None\<close> stands for \<open>ValueError\<close> or \<open>TypeError\<close>.\<close>

definition coord_value :: "'f float_ops \<Rightarrow> row \<Rightarrow> string \<Rightarrow> 'f option" where
  "coord_value ops r col =
     (case map_of r col of
        None \<Rightarrow> Some (fzero ops)
      | Some NoneV \<Rightarrow> None
      | Some (Str s) \<Rightarrow> fparse ops s)"

definition coord_excluded :: "string list \<Rightarrow> string \<Rightarrow> string option \<Rightarrow> string \<Rightarrow> string \<Rightarrow> string list" where
  "coord_excluded headers address_column name_column lat_column lon_column =
     [lat_column, lon_column]
     @ (case name_column of Some n \<Rightarrow> (if n \<noteq> [] then [n] else []) | None \<Rightarrow> [])
     @ (if address_column \<in> set headers then [address_column] else [])"

definition coord_placemark ::
  "string list \<Rightarrow> string \<Rightarrow> string option \<Rightarrow> string \<Rightarrow> string \<Rightarrow> nat \<Rightarrow> row \<Rightarrow> 'f coords
     \<Rightarrow> 'f placemark" where
  "coord_placemark headers address_column name_column lat_column lon_column idx r coordinates =
     (let name = (case name_column of
                    Some n \<Rightarrow> (if n \<noteq> [] \<and> n \<in> set headers
                               then dict_get r n (Str (''Point '' @ str_nat idx))
                               else dict_get r address_column (Str (''Point '' @ str_nat idx)))
                  | None \<Rightarrow> dict_get r address_column (Str (''Point '' @ str_nat idx)));
          excluded_cols = coord_excluded headers address_column name_column lat_column lon_column;
          extended_data = filter (\<lambda>(k, v). k \<notin> set excluded_cols \<and> truthy v) r
      in \<lparr>pm_name = name, pm_coordinates = coordinates,
          pm_description = dict_get r address_column (Str []),
          pm_extended_data = extended_data\<rparr>)"

text \<open>The loop over the rows in the coordinate-column path.\<close>

fun coord_rows ::
  "'f float_ops \<Rightarrow> string list \<Rightarrow> string \<Rightarrow> string option \<Rightarrow> string \<Rightarrow> string \<Rightarrow> nat \<Rightarrow> row list
     \<Rightarrow> 'f placemark list \<times> effect list" where
  "coord_rows ops headers address_column name_column lat_column lon_column idx [] = ([], [])"
| "coord_rows ops headers address_column name_column lat_column lon_column idx (r # rest) =
     (case coord_rows ops headers address_column name_column lat_column lon_column (idx + 1) rest of
        (pms, effs) \<Rightarrow>
          (case coord_value ops r lat_column of
             None \<Rightarrow> (pms, Print_Skipping idx # effs)
           | Some lat \<Rightarrow>
               (case coord_value ops r lon_column of
                  None \<Rightarrow> (pms, Print_Skipping idx # effs)
                | Some lon \<Rightarrow>
                    (coord_placemark headers address_column name_column lat_column lon_column
                       idx r (lon, lat) # pms, effs))))"

definition geo_excluded :: "string \<Rightarrow> string option \<Rightarrow> string list" where
  "geo_excluded address_col name_column =
     [address_col] @ (case name_column of Some n \<Rightarrow> (if n \<noteq> [] then [n] else []) | None \<Rightarrow> [])"

definition geo_placemark ::
  "string list \<Rightarrow> string \<Rightarrow> string option \<Rightarrow> row \<Rightarrow> cell \<Rightarrow> 'f coords \<Rightarrow> 'f placemark" where
  "geo_placemark headers address_col name_column r address coordinates =
     (let name = (case name_column of
                    Some n \<Rightarrow> (if n \<noteq> [] \<and> n \<in> set headers then dict_get r n address else address)
                  | None \<Rightarrow> address);
          excluded_cols = geo_excluded address_col name_column;
          extended_data = filter (\<lambda>(k, v). k \<notin> set excluded_cols \<and> truthy v) r
      in \<lparr>pm_name = name, pm_coordinates = coordinates,
          pm_description = address, pm_extended_data = extended_data\<rparr>)"

text \<open>\<open>geocoded_addresses.get(address)\<close>; the key \<open>None\<close> is never in the dictionary.\<close>

definition geocoded_get :: "'f cache \<Rightarrow> cell \<Rightarrow> 'f coords option" where
  "geocoded_get geocoded address =
     (case address of
        NoneV \<Rightarrow> None
      | Str a \<Rightarrow> (case geocoded a of Some c \<Rightarrow> c | None \<Rightarrow> None))"

text \<open>The loop over the rows in the geocoding path; the second component is \<open>success_count\<close>.\<close>

fun geo_rows ::
  "string list \<Rightarrow> string \<Rightarrow> string option \<Rightarrow> 'f cache \<Rightarrow> row list
     \<Rightarrow> 'f placemark list \<times> nat \<times> effect list" where
  "geo_rows headers address_col name_column geocoded [] = ([], 0, [])"
| "geo_rows headers address_col name_column geocoded (r # rest) =
     (case geo_rows headers address_col name_column geocoded rest of
        (pms, success_count, effs) \<Rightarrow>
          (let address = dict_get r address_col (Str [])
           in case geocoded_get geocoded address of
                None \<Rightarrow> (pms, success_count, Print_Warning (py_str address) # effs)
              | Some coordinates \<Rightarrow>
                  (geo_placemark headers address_col name_column r address coordinates # pms,
                   success_count + 1, effs)))"

text \<open>
  \<open>unique_addresses = list(set(filter(None, addresses)))\<close>.  The order in which a Python
  set is listed is not fixed; \<open>set_order\<close> is the function that lists it, and
  \<open>lists_set\<close> says what any such function does.
\<close>

definition truthy_addresses :: "string \<Rightarrow> row list \<Rightarrow> string list" where
  "truthy_addresses address_col data =
     concat (map (\<lambda>r. case dict_get r address_col (Str []) of
                          Str a \<Rightarrow> (if a \<noteq> [] then [a] else [])
                        | NoneV \<Rightarrow> []) data)"

definition lists_set :: "(string list \<Rightarrow> string list) \<Rightarrow> bool" where
  "lists_set set_order \<longleftrightarrow> (\<forall>xs. distinct (set_order xs) \<and> set (set_order xs) = set xs)"

record 'f conversion =
  placemarks :: "'f placemark list"
  kml_content :: string
  effects :: "effect list"

text \<open>
  \<open>convert_csv_to_kml\<close> from the parsed file on: \<open>data\<close> and \<open>headers\<close> are what
  \<open>parse_csv\<close> returned and \<open>document_name\<close> is the stem of the input path.  The result
  holds the text written to the output file.
\<close>

definition convert_csv_to_kml ::
  "'f float_ops \<Rightarrow> (string list \<Rightarrow> string list) \<Rightarrow> bool \<Rightarrow> (string \<Rightarrow> 'f lookup)
     \<Rightarrow> row list \<Rightarrow> string list \<Rightarrow> string
     \<Rightarrow> string \<Rightarrow> string option \<Rightarrow> bool \<Rightarrow> string option \<Rightarrow> string option
     \<Rightarrow> error + 'f conversion" where
  "convert_csv_to_kml ops set_order geopy_available geocoder data headers document_name
       address_column name_column skip_geocoding lat_column lon_column =
     (if data = [] then Inl (ValueError ''No data found in CSV file'')
      else if skip_geocoding \<and> given lat_column \<and> given lon_column then
        (let lat_c = the lat_column; lon_c = the lon_column
         in if lat_c \<notin> set headers
            then Inl (ValueError (''Latitude column '' @ [CHR 0x27] @ lat_c @ [CHR 0x27]
                                  @ '' not found in CSV''))
            else if lon_c \<notin> set headers
            then Inl (ValueError (''Longitude column '' @ [CHR 0x27] @ lon_c @ [CHR 0x27]
                                  @ '' not found in CSV''))
            else
              (case coord_rows ops headers address_column name_column lat_c lon_c 1 data of
                 (pms, effs) \<Rightarrow>
                   (case generate_kml ops pms document_name of
                      Inl e \<Rightarrow> Inl e
                    | Inr content \<Rightarrow>
                        Inr \<lparr>placemarks = pms,
                             kml_content = content,
                             effects = [Print_Found (length data), Print_UsingColumns] @ effs
                                       @ [Print_Generating (length pms)]\<rparr>)))
      else
        (case find_address_column headers address_column of
           Inl e \<Rightarrow> Inl e
         | Inr address_col \<Rightarrow>
             (let unique_addresses = set_order (truthy_addresses address_col data)
              in case batch_geocode geopy_available geocoder unique_addresses of
                   Inl e \<Rightarrow> Inl e
                 | Inr (geocoded_addresses, geffs) \<Rightarrow>
                     (case geo_rows headers address_col name_column geocoded_addresses data of
                        (pms, success_count, reffs) \<Rightarrow>
                          (case generate_kml ops pms document_name of
                             Inl e \<Rightarrow> Inl e
                           | Inr content \<Rightarrow>
                               Inr \<lparr>placemarks = pms,
                                    kml_content = content,
                                    effects = [Print_Found (length data), Print_GeocodingAddresses,
                                               Print_GeocodingUnique (length unique_addresses)]
                                              @ geffs @ reffs
                                              @ [Print_Success success_count (length data),
                                                 Print_Generating (length pms)]\<rparr>)))))"

section \<open>Notions used to state the properties\<close>

text \<open>
  The reading of "contains the substring address, case-insensitively" used to state the
  properties: some contiguous part of the header equals \<open>address\<close> once lower-cased.
\<close>

definition contains_address_ci :: "string \<Rightarrow> bool" where
  "contains_address_ci h \<longleftrightarrow> (\<exists>pre mid suf. h = pre @ mid @ suf \<and> py_lower mid = ''address'')"

text \<open>The addresses submitted to the geocoder, in order.\<close>

fun lookups :: "effect list \<Rightarrow> string list" where
  "lookups [] = []"
| "lookups (Geocode a t # es) = a # lookups es"
| "lookups (e # es) = lookups es"

definition blank :: "string \<Rightarrow> bool" where
  "blank a \<longleftrightarrow> a = [] \<or> py_strip a = []"

definition resolve :: "(string \<Rightarrow> 'f lookup) \<Rightarrow> string \<Rightarrow> 'f coords option" where
  "resolve geocoder a =
     (if blank a then None
      else case geocoder a of Location lat lon \<Rightarrow> Some (lon, lat) | _ \<Rightarrow> None)"

definition cache_ok :: "(string \<Rightarrow> 'f lookup) \<Rightarrow> 'f cache \<Rightarrow> bool" where
  "cache_ok geocoder cache \<longleftrightarrow> (\<forall>a r. cache a = Some r \<longrightarrow> r = resolve geocoder a)"

definition row_address :: "string \<Rightarrow> row \<Rightarrow> cell" where
  "row_address col r = dict_get r col (Str [])"

definition geo_row_marker ::
  "(string \<Rightarrow> 'f lookup) \<Rightarrow> string list \<Rightarrow> string \<Rightarrow> string option \<Rightarrow> row \<Rightarrow> 'f placemark option" where
  "geo_row_marker geocoder headers col name_column r =
     (case row_address col r of
        NoneV \<Rightarrow> None
      | Str a \<Rightarrow> map_option (geo_placemark headers col name_column r (Str a)) (resolve geocoder a))"

text \<open>Every lookup in a sequence of effects comes right after a sleep of \<open>d\<close>.\<close>

definition sleep_before_each_lookup :: "rat \<Rightarrow> effect list \<Rightarrow> bool" where
  "sleep_before_each_lookup d es \<longleftrightarrow>
     (\<forall>pre a t post. es = pre @ Geocode a t # post \<longrightarrow> (\<exists>pre'. pre = pre' @ [Sleep d]))"

text \<open>A geocoder, float operations and rows for the examples.\<close>

definition example_geocoder :: "string \<Rightarrow> rat lookup" where
  "example_geocoder a =
     (if a = ''1 Main St, City'' then Location (4236 / 100) (- 7105 / 100)
      else if a = ''2 Slow Rd'' then GeocoderTimedOut ''timed out''
      else if a = ''4 Broken Ln'' then OtherException ''boom''
      else NoResult)"

definition example_ops :: "rat float_ops" where
  "example_ops =
     \<lparr>fparse = (\<lambda>s. if s = ''10.0'' then Some 10 else if s = ''20.0'' then Some 20 else None),
      fzero = 0,
      frepr = (\<lambda>x. if x = 10 then ''10.0'' else if x = 20 then ''20.0'' else ''0.0'')\<rparr>"

definition example_rows :: "row list" where
  "example_rows =
     [[(''Address'', Str ''1 Main St, City''), (''Name'', Str ''Bob'')],
      [(''Address'', Str []), (''Name'', Str ''Alice'')],
      [(''Address'', Str ''1 Main St, City''), (''Name'', Str ''Carol'')],
      [(''Address'', Str ''2 Slow Rd''), (''Name'', Str ''Dan'')],
      [(''Address'', Str ''  ''), (''Name'', Str ''Eve'')]]"

definition example_run :: "error + rat conversion" where
  "example_run =
     convert_csv_to_kml example_ops remdups True example_geocoder example_rows
       [''Address'', ''Name''] ''people'' ''Address'' (Some ''Name'') False None None"






text \<open>
  What is read back from a serialized marker: all the text under an element, and the
  entries (name attribute, value text) of its \<open>ExtendedData\<close> block.
\<close>

fun texts :: "element \<Rightarrow> string list" where
  "texts (Element tg attrs txt kids) =
     (case txt of Some t \<Rightarrow> [t] | None \<Rightarrow> []) @ concat (map texts kids)"

definition data_entries :: "element \<Rightarrow> (string \<times> string) list" where
  "data_entries b =
     [(k, t). d \<leftarrow> el_children b, el_tag d = ''Data'',
              (n, k) \<leftarrow> el_attrib d, n = ''name'',
              v \<leftarrow> el_children d, el_tag v = ''value'', t \<leftarrow> texts v]"

definition block_entries :: "element \<Rightarrow> (string \<times> string) list" where
  "block_entries pl = [e. b \<leftarrow> el_children pl, el_tag b = ''ExtendedData'', e \<leftarrow> data_entries b]"

text \<open>The column a marker's name is read from, when the name column is configured and present.\<close>

definition name_consumed :: "string list \<Rightarrow> string option \<Rightarrow> string set" where
  "name_consumed headers name_column =
     (case name_column of
        Some n \<Rightarrow> (if n \<noteq> [] \<and> n \<in> set headers then {n} else {})
      | None \<Rightarrow> {})"

definition attributes_of :: "string set \<Rightarrow> row \<Rightarrow> (string \<times> string) list" where
  "attributes_of consumed r =
     map (\<lambda>kv. (fst kv, py_str (snd kv)))
         (filter (\<lambda>kv. fst kv \<notin> consumed \<and> truthy (snd kv)) r)"

definition example_attr_row :: row where
  "example_attr_row =
     [(''Address'', Str ''1 Main St, City''), (''Lat'', Str ''10.0''), (''Lon'', Str ''20.0''),
      (''Name'', Str ''Bob''), (''Phone'', Str ''555''), (''Note'', Str []), (''Fax'', NoneV)]"

definition example_attr_headers :: "string list" where
  "example_attr_headers = [''Address'', ''Lat'', ''Lon'', ''Name'', ''Phone'', ''Note'', ''Fax'']"

definition example_marker :: "rat placemark" where
  "example_marker =
     \<lparr>pm_name = Str ''Bob'', pm_coordinates = (20, 10),
      pm_description = Str ''1 Main St'',
      pm_extended_data = [(''Phone'', Str ''555'')]\<rparr>"

section \<open>Address column resolution: proofs\<close>

lemma py_in_iff: "py_in needle hay \<longleftrightarrow> (\<exists>ps ss. hay = ps @ needle @ ss)"
proof (induction hay)
  case Nil
  then show ?case by auto
next
  case (Cons c cs)
  have "py_in needle (c # cs) \<longleftrightarrow> prefix needle (c # cs) \<or> sublist needle cs"
    using Cons.IH by (simp add: sublist_def)
  also have "\<dots> \<longleftrightarrow> sublist needle (c # cs)"
    by (simp add: sublist_Cons_right)
  finally show ?case by (simp add: sublist_def)
qed

lemma map_eq_middle:
  assumes "map f xs = ps @ m @ ss"
  shows "\<exists>pre mid suf. xs = pre @ mid @ suf \<and> map f mid = m"
proof -
  let ?pre = "take (length ps) xs"
  let ?mid = "take (length m) (drop (length ps) xs)"
  let ?suf = "drop (length m) (drop (length ps) xs)"
  have "xs = ?pre @ ?mid @ ?suf" by (simp only: append_take_drop_id)
  moreover have "map f ?mid = take (length m) (drop (length ps) (map f xs))"
    by (simp add: take_map drop_map)
  then have "map f ?mid = m" by (simp add: assms)
  ultimately show ?thesis by blast
qed

lemma py_in_lower_iff: "py_in ''address'' (py_lower h) \<longleftrightarrow> contains_address_ci h"
proof
  assume "py_in ''address'' (py_lower h)"
  then obtain ps ss where "map py_lower_char h = ps @ ''address'' @ ss"
    unfolding py_in_iff py_lower_def by blast
  from map_eq_middle [OF this] show "contains_address_ci h"
    unfolding contains_address_ci_def py_lower_def .
next
  assume "contains_address_ci h"
  then obtain pre mid suf where "h = pre @ mid @ suf" "py_lower mid = ''address''"
    unfolding contains_address_ci_def by blast
  then have "py_lower h = py_lower pre @ ''address'' @ py_lower suf"
    by (simp add: py_lower_def)
  then show "py_in ''address'' (py_lower h)"
    unfolding py_in_iff by blast
qed

lemma py_join_contains: "h \<in> set hs \<Longrightarrow> \<exists>ps ss. py_join sep hs = ps @ h @ ss"
proof (induction sep hs rule: py_join.induct)
  case (1 sep)
  then show ?case by simp
next
  case (2 sep x)
  then have "py_join sep [x] = [] @ h @ []" by simp
  then show ?case by blast
next
  case (3 sep x y ys)
  show ?case
  proof (cases "h = x")
    case True
    then have "py_join sep (x # y # ys) = [] @ h @ (sep @ py_join sep (y # ys))" by simp
    then show ?thesis by blast
  next
    case False
    with 3 obtain ps ss where "py_join sep (y # ys) = ps @ h @ ss" by auto
    then have "py_join sep (x # y # ys) = (x @ sep @ ps) @ h @ ss" by simp
    then show ?thesis by blast
  qed
qed

text \<open>
  Claim C8.  Address-column resolution: a configured name that occurs verbatim in the
  header is used; otherwise the first header that contains \<open>address\<close>
  case-insensitively is used; otherwise the call fails with a \<open>ValueError\<close> whose
  message names the configured column and lists every available column name, and a run
  in the geocoding path fails with that error.
\<close>

theorem find_address_column_resolution:
  "(column_name \<in> set headers \<longrightarrow>
      find_address_column headers column_name = Inr column_name) \<and>
   (column_name \<notin> set headers \<and> headers = pre @ h # post \<and> contains_address_ci h \<and>
      (\<forall>p \<in> set pre. \<not> contains_address_ci p) \<longrightarrow>
      find_address_column headers column_name = Inr h) \<and>
   (column_name \<notin> set headers \<and> (\<forall>h \<in> set headers. \<not> contains_address_ci h) \<longrightarrow>
      (\<exists>msg. find_address_column headers column_name = Inl (ValueError msg) \<and>
         msg = ''Column '' @ [CHR 0x27] @ column_name @ [CHR 0x27]
               @ '' not found in CSV. Available columns: '' @ py_join '', '' headers \<and>
         (\<forall>h \<in> set headers. sublist h msg))) \<and>
   (data \<noteq> [] \<and> \<not> (skip_geocoding \<and> given lat_column \<and> given lon_column) \<and>
      find_address_column headers column_name = Inl e \<longrightarrow>
      convert_csv_to_kml ops set_order geopy_available geocoder data headers document_name
        column_name name_column skip_geocoding lat_column lon_column = Inl e)"
proof (intro conjI impI)
  assume "column_name \<in> set headers"
  then show "find_address_column headers column_name = Inr column_name"
    by (simp add: find_address_column_def)
next
  assume hyp: "column_name \<notin> set headers \<and> headers = pre @ h # post \<and>
      contains_address_ci h \<and> (\<forall>p \<in> set pre. \<not> contains_address_ci p)"
  then have notin: "column_name \<notin> set headers" by blast
  from hyp have "filter (\<lambda>col. py_in ''address'' (py_lower col)) headers
      = h # filter (\<lambda>col. py_in ''address'' (py_lower col)) post"
    by (simp add: py_in_lower_iff)
  with notin show "find_address_column headers column_name = Inr h"
    by (simp add: find_address_column_def)
next
  assume hyp: "column_name \<notin> set headers \<and> (\<forall>h \<in> set headers. \<not> contains_address_ci h)"
  then have "filter (\<lambda>col. py_in ''address'' (py_lower col)) headers = []"
    by (simp add: py_in_lower_iff)
  with hyp have "find_address_column headers column_name =
      Inl (ValueError (''Column '' @ [CHR 0x27] @ column_name @ [CHR 0x27]
               @ '' not found in CSV. Available columns: '' @ py_join '', '' headers))"
    by (simp add: find_address_column_def)
  moreover have "\<forall>h \<in> set headers. sublist h (''Column '' @ [CHR 0x27] @ column_name @ [CHR 0x27]
               @ '' not found in CSV. Available columns: '' @ py_join '', '' headers)"
  proof
    fix h assume "h \<in> set headers"
    from py_join_contains [OF this, of "'', ''"] obtain ps ss
      where "py_join '', '' headers = ps @ h @ ss" by blast
    then have "''Column '' @ [CHR 0x27] @ column_name @ [CHR 0x27]
               @ '' not found in CSV. Available columns: '' @ py_join '', '' headers
        = (''Column '' @ [CHR 0x27] @ column_name @ [CHR 0x27]
               @ '' not found in CSV. Available columns: '' @ ps) @ h @ ss"
      by simp
    then show "sublist h (''Column '' @ [CHR 0x27] @ column_name @ [CHR 0x27]
               @ '' not found in CSV. Available columns: '' @ py_join '', '' headers)"
      unfolding sublist_def by blast
  qed
  ultimately show "\<exists>msg. find_address_column headers column_name = Inl (ValueError msg) \<and>
         msg = ''Column '' @ [CHR 0x27] @ column_name @ [CHR 0x27]
               @ '' not found in CSV. Available columns: '' @ py_join '', '' headers \<and>
         (\<forall>h \<in> set headers. sublist h msg)"
    by blast
next
  assume "data \<noteq> [] \<and> \<not> (skip_geocoding \<and> given lat_column \<and> given lon_column) \<and>
      find_address_column headers column_name = Inl e"
  then show "convert_csv_to_kml ops set_order geopy_available geocoder data headers document_name
        column_name name_column skip_geocoding lat_column lon_column = Inl e"
    by (auto simp: convert_csv_to_kml_def)
qed

theorem find_address_column_resolution_witness:
  "find_address_column [''Address'', ''Name''] ''Address'' = Inr ''Address'' \<and>
   find_address_column [''Name'', ''Home ADDRESS'', ''address2''] ''Address'' = Inr ''Home ADDRESS'' \<and>
   (\<exists>msg. find_address_column [''Name'', ''City''] ''Address'' = Inl (ValueError msg) \<and>
      msg = ''Column '' @ [CHR 0x27] @ ''Address'' @ [CHR 0x27] @ '' not found in CSV. Available columns: Name, City'' \<and>
      sublist ''Name'' msg \<and> sublist ''City'' msg \<and>
      convert_csv_to_kml example_ops remdups True example_geocoder example_rows
        [''Name'', ''City''] ''people'' ''Address'' None False None None = Inl (ValueError msg))"
proof -
  have n1: "\<not> contains_address_ci ''Name''" and n2: "\<not> contains_address_ci ''City''"
    unfolding py_in_lower_iff [symmetric] by code_simp+
  have y: "contains_address_ci ''Home ADDRESS''"
    unfolding py_in_lower_iff [symmetric] by code_simp
  have a: "find_address_column [''Address'', ''Name''] ''Address'' = Inr ''Address''"
    using find_address_column_resolution [of "''Address''" "[''Address'', ''Name'']", THEN conjunct1]
    by simp
  from n1 y have b: "find_address_column [''Name'', ''Home ADDRESS'', ''address2''] ''Address'' = Inr ''Home ADDRESS''"
    using find_address_column_resolution [of "''Address''" "[''Name'', ''Home ADDRESS'', ''address2'']" "[''Name'']" "''Home ADDRESS''" "[''address2'']",
        THEN conjunct2, THEN conjunct1]
    by simp
  have c: "\<exists>msg. find_address_column [''Name'', ''City''] ''Address'' = Inl (ValueError msg) \<and>
      msg = ''Column '' @ [CHR 0x27] @ ''Address'' @ [CHR 0x27] @ '' not found in CSV. Available columns: Name, City'' \<and>
      sublist ''Name'' msg \<and> sublist ''City'' msg"
    using find_address_column_resolution [of "''Address''" "[''Name'', ''City'']",
        THEN conjunct2, THEN conjunct2, THEN conjunct1] n1 n2
    by simp
  then obtain msg where m: "find_address_column [''Name'', ''City''] ''Address'' = Inl (ValueError msg)"
      "msg = ''Column '' @ [CHR 0x27] @ ''Address'' @ [CHR 0x27] @ '' not found in CSV. Available columns: Name, City''"
      "sublist ''Name'' msg" "sublist ''City'' msg"
    by blast
  have "example_rows \<noteq> [] \<and> \<not> (False \<and> given None \<and> given None) \<and>
      find_address_column [''Name'', ''City''] ''Address'' = Inl (ValueError msg)"
    using m(1) by (simp add: example_rows_def)
  from find_address_column_resolution [where data = example_rows and skip_geocoding = False
      and lat_column = None and lon_column = None and headers = "[''Name'', ''City'']"
      and column_name = "''Address''" and e = "ValueError msg" and ops = example_ops
      and set_order = remdups and geopy_available = True and geocoder = example_geocoder
      and document_name = "''people''" and name_column = None,
      THEN conjunct2, THEN conjunct2, THEN conjunct2, THEN mp, OF this]
  have d: "convert_csv_to_kml example_ops remdups True example_geocoder example_rows
        [''Name'', ''City''] ''people'' ''Address'' None False None None = Inl (ValueError msg)" .
  from a b m d show ?thesis by blast
qed

section \<open>The resolver: proofs\<close>

lemma lookups_append: "lookups (xs @ ys) = lookups xs @ lookups ys"
  by (induction xs rule: lookups.induct) simp_all

lemma geocode_address_cases:
  assumes "geocode_address geocoder a cache d = (r, cache', effs)"
  shows "(a \<in> dom cache \<or> blank a) \<and> cache' = cache \<and> effs = [] \<or>
         a \<notin> dom cache \<and> \<not> blank a \<and> cache' = cache(a \<mapsto> r) \<and> lookups effs = [a]"
  using assms
  by (auto simp: geocode_address_def blank_def split: if_splits option.splits lookup.splits)

lemma batch_loop_lookups:
  assumes "batch_loop geocoder tot idx addrs cache results = (results', cache', effs)"
  shows "distinct (lookups effs) \<and> set (lookups effs) \<inter> dom cache = {}
         \<and> dom cache' = dom cache \<union> set (lookups effs)"
  using assms
proof (induction addrs arbitrary: idx cache results results' cache' effs)
  case Nil
  then show ?case by simp
next
  case (Cons a rest)
  obtain r c1 e1 where g: "geocode_address geocoder a cache 1 = (r, c1, e1)"
    by (cases "geocode_address geocoder a cache 1") auto
  obtain r2 c2 e2 where b: "batch_loop geocoder tot (idx + 1) rest c1 (results(a \<mapsto> r)) = (r2, c2, e2)"
    by (cases "batch_loop geocoder tot (idx + 1) rest c1 (results(a \<mapsto> r))") auto
  from Cons.prems g b have eq: "effs = Print_Progress idx tot (take 50 a) # e1 @ e2" "cache' = c2"
    by auto
  note ih = Cons.IH [OF b]
  from geocode_address_cases [OF g] show ?case
  proof
    assume "(a \<in> dom cache \<or> blank a) \<and> c1 = cache \<and> e1 = []"
    with ih eq show ?thesis by (simp add: lookups_append)
  next
    assume h: "a \<notin> dom cache \<and> \<not> blank a \<and> c1 = cache(a \<mapsto> r) \<and> lookups e1 = [a]"
    with ih eq show ?thesis by (auto simp: lookups_append)
  qed
qed

lemma geocode_address_fst:
  assumes "geocode_address geocoder a cache d = (r, cache', effs)"
  shows "r = (if blank a then None
              else case cache a of Some r0 \<Rightarrow> r0 | None \<Rightarrow> resolve geocoder a)"
  using assms
  by (auto simp: geocode_address_def blank_def resolve_def
           split: if_splits option.splits lookup.splits)

lemma cache_ok_upd:
  "cache_ok geocoder cache \<Longrightarrow> r = resolve geocoder a \<Longrightarrow> cache_ok geocoder (cache(a \<mapsto> r))"
  by (simp add: cache_ok_def)

lemma geocode_address_resolve:
  assumes ok: "cache_ok geocoder cache"
    and g: "geocode_address geocoder a cache d = (r, cache', effs)"
  shows "r = resolve geocoder a \<and> cache_ok geocoder cache'"
proof -
  have r: "r = resolve geocoder a"
  proof (cases "blank a")
    case True
    with geocode_address_fst [OF g] show ?thesis by (simp add: resolve_def)
  next
    case False
    show ?thesis
    proof (cases "cache a")
      case None
      with False geocode_address_fst [OF g] show ?thesis by simp
    next
      case (Some r0)
      with False geocode_address_fst [OF g] have "r = r0" by simp
      with Some ok show ?thesis by (simp add: cache_ok_def)
    qed
  qed
  from geocode_address_cases [OF g] have "cache' = cache \<or> cache' = cache(a \<mapsto> r)"
    by blast
  with ok r cache_ok_upd [OF ok r] show ?thesis by auto
qed

lemma batch_loop_results:
  assumes "batch_loop geocoder tot idx addrs cache results = (results', cache', effs)"
    and "cache_ok geocoder cache" and "cache_ok geocoder results"
  shows "dom results' = dom results \<union> set addrs \<and> cache_ok geocoder results'"
  using assms
proof (induction addrs arbitrary: idx cache results results' cache' effs)
  case Nil
  then show ?case by simp
next
  case (Cons a rest)
  obtain r c1 e1 where g: "geocode_address geocoder a cache 1 = (r, c1, e1)"
    by (cases "geocode_address geocoder a cache 1") auto
  obtain r2 c2 e2 where b: "batch_loop geocoder tot (idx + 1) rest c1 (results(a \<mapsto> r)) = (r2, c2, e2)"
    by (cases "batch_loop geocoder tot (idx + 1) rest c1 (results(a \<mapsto> r))") auto
  from Cons.prems(1) g b have eq: "results' = r2" by auto
  from geocode_address_resolve [OF Cons.prems(2) g]
  have r: "r = resolve geocoder a" and ok1: "cache_ok geocoder c1" by simp_all
  from Cons.prems(3) r have ok2: "cache_ok geocoder (results(a \<mapsto> r))"
    by (simp add: cache_ok_def)
  from Cons.IH [OF b ok1 ok2] eq show ?case by auto
qed

lemma batch_geocode_results:
  assumes "batch_geocode avail geocoder addrs = Inr (results, effs)"
  shows "dom results = set addrs \<and> cache_ok geocoder results \<and> distinct (lookups effs)"
proof -
  obtain r c e where b: "batch_loop geocoder (length addrs) 1 addrs Map.empty Map.empty = (r, c, e)"
    by (cases "batch_loop geocoder (length addrs) 1 addrs Map.empty Map.empty") auto
  with assms have eq: "results = r" "effs = e"
    by (auto simp: batch_geocode_def split: if_splits)
  have "cache_ok geocoder Map.empty" by (simp add: cache_ok_def)
  from batch_loop_results [OF b this this] batch_loop_lookups [OF b] eq
  show ?thesis by simp
qed

lemma truthy_addresses_set:
  "set (truthy_addresses col data) = {a. a \<noteq> [] \<and> (\<exists>r \<in> set data. row_address col r = Str a)}"
  by (induction data) (auto simp: truthy_addresses_def row_address_def split: cell.splits)

lemma geo_rows_markers:
  assumes "geo_rows headers col name_column geocoded data = (pms, n, effs)"
    and "\<forall>r \<in> set data. geocoded_get geocoded (row_address col r)
           = (case row_address col r of NoneV \<Rightarrow> None | Str a \<Rightarrow> resolve geocoder a)"
  shows "pms = List.map_filter (geo_row_marker geocoder headers col name_column) data
         \<and> n = length pms \<and> lookups effs = []"
  using assms
proof (induction data arbitrary: pms n effs)
  case Nil
  then show ?case by (simp add: List.map_filter_simps)
next
  case (Cons r rest)
  let ?f = "geo_row_marker geocoder headers col name_column"
  let ?addr = "row_address col r"
  obtain p2 n2 e2 where g: "geo_rows headers col name_column geocoded rest = (p2, n2, e2)"
    by (cases "geo_rows headers col name_column geocoded rest") auto
  from Cons.prems(2) have "\<forall>r \<in> set rest. geocoded_get geocoded (row_address col r)
           = (case row_address col r of NoneV \<Rightarrow> None | Str a \<Rightarrow> resolve geocoder a)"
    by simp
  from Cons.IH [OF g this] have ih: "p2 = List.map_filter ?f rest"
    "n2 = length p2" "lookups e2 = []" by simp_all
  from Cons.prems(2) have here: "geocoded_get geocoded ?addr
           = (case ?addr of NoneV \<Rightarrow> None | Str a \<Rightarrow> resolve geocoder a)"
    by simp
  have m: "?f r = map_option (geo_placemark headers col name_column r ?addr)
                     (geocoded_get geocoded ?addr)"
    unfolding here geo_row_marker_def by (cases ?addr) simp_all
  from Cons.prems(1) g have step: "(pms, n, effs) =
      (case geocoded_get geocoded ?addr of
         None \<Rightarrow> (p2, n2, Print_Warning (py_str ?addr) # e2)
       | Some c \<Rightarrow> (geo_placemark headers col name_column r ?addr c # p2, n2 + 1, e2))"
    unfolding row_address_def by (simp add: Let_def)
  show ?case
  proof (cases "geocoded_get geocoded ?addr")
    case None
    with m have "?f r = None" by simp
    then have "List.map_filter ?f (r # rest) = List.map_filter ?f rest"
      by (simp add: List.map_filter_simps)
    moreover from step None have "pms = p2" "n = n2" "effs = Print_Warning (py_str ?addr) # e2"
      by simp_all
    ultimately show ?thesis using ih by simp
  next
    case (Some c)
    with m have "?f r = Some (geo_placemark headers col name_column r ?addr c)" by simp
    then have "List.map_filter ?f (r # rest)
        = geo_placemark headers col name_column r ?addr c # List.map_filter ?f rest"
      by (simp add: List.map_filter_simps)
    moreover from step Some have "pms = geo_placemark headers col name_column r ?addr c # p2"
      "n = n2 + 1" "effs = e2"
      by simp_all
    ultimately show ?thesis using ih by simp
  qed
qed

lemma lookups_empty_iff: "lookups es = [] \<longleftrightarrow> (\<forall>a t. Geocode a t \<notin> set es)"
  by (induction es rule: lookups.induct) auto

lemma sleep_before_no_lookup: "lookups es = [] \<Longrightarrow> sleep_before_each_lookup d es"
  unfolding sleep_before_each_lookup_def lookups_empty_iff by fastforce

lemma sleep_before_append:
  assumes "sleep_before_each_lookup d xs" "sleep_before_each_lookup d ys"
  shows "sleep_before_each_lookup d (xs @ ys)"
  unfolding sleep_before_each_lookup_def
proof (intro allI impI)
  fix pre a t post
  assume eq: "xs @ ys = pre @ Geocode a t # post"
  then obtain us where "xs = pre @ us \<and> us @ ys = Geocode a t # post
      \<or> xs @ us = pre \<and> ys = us @ Geocode a t # post"
    unfolding append_eq_append_conv2 by blast
  then show "\<exists>pre'. pre = pre' @ [Sleep d]"
  proof
    assume h: "xs = pre @ us \<and> us @ ys = Geocode a t # post"
    show ?thesis
    proof (cases us)
      case Nil
      with h have "ys = [] @ Geocode a t # post" by simp
      with assms(2) have "\<exists>pre'. [] = pre' @ [Sleep d]"
        unfolding sleep_before_each_lookup_def by blast
      then show ?thesis by simp
    next
      case (Cons u us')
      with h have "xs = pre @ Geocode a t # us'" by simp
      with assms(1) show ?thesis
        unfolding sleep_before_each_lookup_def by blast
    qed
  next
    assume h: "xs @ us = pre \<and> ys = us @ Geocode a t # post"
    with assms(2) obtain p where "us = p @ [Sleep d]"
      unfolding sleep_before_each_lookup_def by blast
    with h have "pre = (xs @ p) @ [Sleep d]" by simp
    then show ?thesis by blast
  qed
qed

lemma sleep_before_pair:
  assumes "lookups rest = []"
  shows "sleep_before_each_lookup d (Sleep d # Geocode a t # rest)"
  unfolding sleep_before_each_lookup_def
proof (intro allI impI)
  fix pre a' t' post
  assume eq: "Sleep d # Geocode a t # rest = pre @ Geocode a' t' # post"
  show "\<exists>pre'. pre = pre' @ [Sleep d]"
  proof (cases pre)
    case Nil
    with eq show ?thesis by simp
  next
    case (Cons p ps)
    with eq have p: "p = Sleep d" and r: "Geocode a t # rest = ps @ Geocode a' t' # post" by simp_all
    show ?thesis
    proof (cases ps)
      case Nil
      with Cons p show ?thesis by simp
    next
      case (Cons q qs)
      with r have "rest = qs @ Geocode a' t' # post" by simp
      then have "Geocode a' t' \<in> set rest" by simp
      with assms show ?thesis unfolding lookups_empty_iff by blast
    qed
  qed
qed

lemma geocode_address_effects:
  assumes "geocode_address geocoder a cache d = (r, cache', effs)"
  shows "((a \<in> dom cache \<or> blank a) \<and> effs = []) \<or>
         (a \<notin> dom cache \<and> \<not> blank a \<and> (\<exists>rest. effs = Sleep d # Geocode a 10 # rest \<and> lookups rest = []))"
  using assms
  by (auto simp: geocode_address_def blank_def split: if_splits option.splits lookup.splits)

lemma geocode_address_sleeps:
  assumes "geocode_address geocoder a cache d = (r, cache', effs)"
  shows "sleep_before_each_lookup d effs"
  using geocode_address_effects [OF assms] sleep_before_pair sleep_before_no_lookup [of "[]"]
  by auto

lemma batch_loop_sleeps:
  assumes "batch_loop geocoder tot idx addrs cache results = (results', cache', effs)"
  shows "sleep_before_each_lookup 1 effs"
  using assms
proof (induction addrs arbitrary: idx cache results results' cache' effs)
  case Nil
  then show ?case by (simp add: sleep_before_no_lookup)
next
  case (Cons a rest)
  obtain r c1 e1 where g: "geocode_address geocoder a cache 1 = (r, c1, e1)"
    by (cases "geocode_address geocoder a cache 1") auto
  obtain r2 c2 e2 where b: "batch_loop geocoder tot (idx + 1) rest c1 (results(a \<mapsto> r)) = (r2, c2, e2)"
    by (cases "batch_loop geocoder tot (idx + 1) rest c1 (results(a \<mapsto> r))") auto
  from Cons.prems g b have eq: "effs = [Print_Progress idx tot (take 50 a)] @ e1 @ e2"
    by auto
  have "sleep_before_each_lookup 1 [Print_Progress idx tot (take 50 a)]"
    by (simp add: sleep_before_no_lookup)
  with geocode_address_sleeps [OF g] Cons.IH [OF b] show ?case
    unfolding eq by (intro sleep_before_append)
qed

lemma convert_geo_path:
  assumes "convert_csv_to_kml ops so avail geocoder data headers doc ac nc skip lat lon = Inr res"
    and "\<not> (skip \<and> given lat \<and> given lon)"
  shows "\<exists>col results geffs pms n reffs.
      find_address_column headers ac = Inr col \<and>
      batch_geocode avail geocoder (so (truthy_addresses col data)) = Inr (results, geffs) \<and>
      geo_rows headers col nc results data = (pms, n, reffs) \<and>
      placemarks res = pms \<and>
      generate_kml ops pms doc = Inr (kml_content res) \<and>
      effects res = [Print_Found (length data), Print_GeocodingAddresses,
                     Print_GeocodingUnique (length (so (truthy_addresses col data)))]
                    @ geffs @ reffs @ [Print_Success n (length data), Print_Generating (length pms)]"
  using assms
  by (auto simp: convert_csv_to_kml_def Let_def split: if_splits sum.splits prod.splits)

lemma convert_coord_path:
  assumes "convert_csv_to_kml ops so avail geocoder data headers doc ac nc skip lat lon = Inr res"
    and "skip \<and> given lat \<and> given lon"
  shows "\<exists>lat_c lon_c pms effs.
      lat = Some lat_c \<and> lon = Some lon_c \<and> lat_c \<noteq> [] \<and> lon_c \<noteq> [] \<and>
      lat_c \<in> set headers \<and> lon_c \<in> set headers \<and>
      coord_rows ops headers ac nc lat_c lon_c 1 data = (pms, effs) \<and>
      placemarks res = pms \<and>
      generate_kml ops pms doc = Inr (kml_content res) \<and>
      effects res = [Print_Found (length data), Print_UsingColumns] @ effs
                    @ [Print_Generating (length pms)]"
proof -
  from assms(2) obtain lat_c lon_c where l: "lat = Some lat_c" "lon = Some lon_c"
    "lat_c \<noteq> []" "lon_c \<noteq> []"
    by (cases lat; cases lon) auto
  with assms show ?thesis
    by (auto simp: convert_csv_to_kml_def Let_def split: if_splits prod.splits sum.splits)
qed

lemma distinct_count_le_1: "distinct xs \<Longrightarrow> count_list xs a \<le> 1"
  by (induction xs) auto

lemma coord_rows_lookups:
  "coord_rows ops headers ac nc lat_c lon_c idx data = (pms, effs) \<Longrightarrow> lookups effs = []"
proof (induction data arbitrary: idx pms effs)
  case Nil
  then show ?case by simp
next
  case (Cons r rest)
  obtain p2 e2 where c: "coord_rows ops headers ac nc lat_c lon_c (idx + 1) rest = (p2, e2)"
    by (cases "coord_rows ops headers ac nc lat_c lon_c (idx + 1) rest") auto
  from Cons.IH [OF c] have "lookups e2 = []" .
  with Cons.prems c show ?case
    by (auto split: option.splits)
qed

lemma geo_rows_lookups:
  "geo_rows headers col nc geocoded data = (pms, n, effs) \<Longrightarrow> lookups effs = []"
proof (induction data arbitrary: pms n effs)
  case Nil
  then show ?case by simp
next
  case (Cons r rest)
  obtain p2 n2 e2 where g: "geo_rows headers col nc geocoded rest = (p2, n2, e2)"
    by (cases "geo_rows headers col nc geocoded rest") auto
  from Cons.IH [OF g] have "lookups e2 = []" .
  with Cons.prems g show ?case
    by (auto simp: Let_def split: option.splits)
qed

lemma batch_loop_nonblank:
  assumes "batch_loop geocoder tot idx addrs cache results = (results', cache', effs)"
  shows "\<forall>a \<in> set (lookups effs). \<not> blank a \<and> a \<in> set addrs"
  using assms
proof (induction addrs arbitrary: idx cache results results' cache' effs)
  case Nil
  then show ?case by simp
next
  case (Cons a rest)
  obtain r c1 e1 where g: "geocode_address geocoder a cache 1 = (r, c1, e1)"
    by (cases "geocode_address geocoder a cache 1") auto
  obtain r2 c2 e2 where b: "batch_loop geocoder tot (idx + 1) rest c1 (results(a \<mapsto> r)) = (r2, c2, e2)"
    by (cases "batch_loop geocoder tot (idx + 1) rest c1 (results(a \<mapsto> r))") auto
  from Cons.prems g b have eq: "effs = Print_Progress idx tot (take 50 a) # e1 @ e2"
    by auto
  from geocode_address_cases [OF g] have "lookups e1 = [] \<or> \<not> blank a \<and> lookups e1 = [a]"
    by auto
  with Cons.IH [OF b] show ?case unfolding eq by (auto simp: lookups_append)
qed

lemma batch_geocode_lookups:
  assumes "batch_geocode avail geocoder addrs = Inr (results, effs)"
  shows "distinct (lookups effs) \<and> sleep_before_each_lookup 1 effs
         \<and> (\<forall>a \<in> set (lookups effs). \<not> blank a \<and> a \<in> set addrs)"
proof -
  obtain r c e where b: "batch_loop geocoder (length addrs) 1 addrs Map.empty Map.empty = (r, c, e)"
    by (cases "batch_loop geocoder (length addrs) 1 addrs Map.empty Map.empty") auto
  with assms have eq: "results = r" "effs = e"
    by (auto simp: batch_geocode_def split: if_splits)
  from batch_loop_lookups [OF b] batch_loop_sleeps [OF b] batch_loop_nonblank [OF b] eq
  show ?thesis by simp
qed

lemma run_lookups:
  assumes "convert_csv_to_kml ops so avail geocoder data headers doc ac nc skip lat lon = Inr res"
  shows "distinct (lookups (effects res)) \<and> sleep_before_each_lookup 1 (effects res)"
proof (cases "skip \<and> given lat \<and> given lon")
  case True
  from convert_coord_path [OF assms True] obtain lat_c lon_c pms effs where
    c: "coord_rows ops headers ac nc lat_c lon_c 1 data = (pms, effs)"
    and e: "effects res = [Print_Found (length data), Print_UsingColumns] @ effs
                    @ [Print_Generating (length pms)]"
    by blast
  from coord_rows_lookups [OF c] e have "lookups (effects res) = []"
    by (simp add: lookups_append)
  then show ?thesis by (simp add: sleep_before_no_lookup)
next
  case False
  from convert_geo_path [OF assms False] obtain col results geffs pms n reffs where
    b: "batch_geocode avail geocoder (so (truthy_addresses col data)) = Inr (results, geffs)"
    and g: "geo_rows headers col nc results data = (pms, n, reffs)"
    and e: "effects res = [Print_Found (length data), Print_GeocodingAddresses,
                     Print_GeocodingUnique (length (so (truthy_addresses col data)))]
                    @ geffs @ reffs @ [Print_Success n (length data), Print_Generating (length pms)]"
    by blast
  from geo_rows_lookups [OF g] have r: "lookups reffs = []" .
  from batch_geocode_lookups [OF b] have d: "distinct (lookups geffs)"
    and s: "sleep_before_each_lookup 1 geffs" by simp_all
  from r d e have "distinct (lookups (effects res))" by (simp add: lookups_append)
  moreover have "sleep_before_each_lookup 1 (effects res)"
    unfolding e
    by (intro sleep_before_append s sleep_before_no_lookup r) simp_all
  ultimately show ?thesis by simp
qed

text \<open>
  Claim C1.  In a run, and in any call of \<open>batch_geocode\<close> whatever its list, the
  geocoder's lookup is invoked at most once for any address: the conversion hands
  \<open>batch_geocode\<close> a duplicate-free list without the empty string, and
  \<open>geocode_address\<close> makes no call for an address that is in the cache.
\<close>

theorem lookup_at_most_once:
  "(convert_csv_to_kml ops set_order geopy_available geocoder data headers document_name
        address_column name_column skip_geocoding lat_column lon_column = Inr res
      \<longrightarrow> count_list (lookups (effects res)) a \<le> 1) \<and>
   (batch_geocode geopy_available geocoder addresses = Inr (results, effs)
      \<longrightarrow> count_list (lookups effs) a \<le> 1) \<and>
   (lists_set set_order \<longrightarrow> distinct (set_order (truthy_addresses address_col data))
      \<and> [] \<notin> set (set_order (truthy_addresses address_col data))) \<and>
   (a \<in> dom cache \<longrightarrow> snd (snd (geocode_address geocoder a cache delay)) = [])"
proof (intro conjI impI)
  assume "convert_csv_to_kml ops set_order geopy_available geocoder data headers document_name
        address_column name_column skip_geocoding lat_column lon_column = Inr res"
  from run_lookups [OF this] have "distinct (lookups (effects res))" by simp
  then show "count_list (lookups (effects res)) a \<le> 1"
    by (rule distinct_count_le_1)
next
  assume "batch_geocode geopy_available geocoder addresses = Inr (results, effs)"
  from batch_geocode_lookups [OF this] have "distinct (lookups effs)" by simp
  then show "count_list (lookups effs) a \<le> 1"
    by (rule distinct_count_le_1)
next
  assume "lists_set set_order"
  then show "distinct (set_order (truthy_addresses address_col data))"
    by (simp add: lists_set_def)
next
  assume "lists_set set_order"
  then have "set (set_order (truthy_addresses address_col data)) = set (truthy_addresses address_col data)"
    by (simp add: lists_set_def)
  then show "[] \<notin> set (set_order (truthy_addresses address_col data))"
    by (simp add: truthy_addresses_set)
next
  assume "a \<in> dom cache"
  then show "snd (snd (geocode_address geocoder a cache delay)) = []"
    by (auto simp: geocode_address_def)
qed

lemma lists_set_remdups: "lists_set remdups"
  by (simp add: lists_set_def)

theorem lookup_at_most_once_witness:
  "\<not> isl example_run \<and>
   count_list (lookups (effects (projr example_run))) ''1 Main St, City'' \<le> 1 \<and>
   \<not> isl (batch_geocode True example_geocoder [''1 Main St, City'', ''1 Main St, City'']) \<and>
   count_list (lookups (snd (projr (batch_geocode True example_geocoder
       [''1 Main St, City'', ''1 Main St, City''])))) ''1 Main St, City'' \<le> 1 \<and>
   lists_set remdups \<and>
   distinct (remdups (truthy_addresses ''Address'' example_rows)) \<and>
   [] \<notin> set (remdups (truthy_addresses ''Address'' example_rows)) \<and>
   ''1 Main St, City'' \<in> dom [''1 Main St, City'' \<mapsto> Some (1, 2 :: rat)] \<and>
   snd (snd (geocode_address example_geocoder ''1 Main St, City''
       [''1 Main St, City'' \<mapsto> Some (1, 2)] 1)) = []"
proof -
  let ?b = "batch_geocode True example_geocoder [''1 Main St, City'', ''1 Main St, City'']"
  have r: "\<not> isl example_run" by code_simp
  then have run: "convert_csv_to_kml example_ops remdups True example_geocoder example_rows
       [''Address'', ''Name''] ''people'' ''Address'' (Some ''Name'') False None None
       = Inr (projr example_run)"
    by (simp add: example_run_def)
  have b: "\<not> isl ?b" by code_simp
  then have batch: "?b = Inr (fst (projr ?b), snd (projr ?b))" by simp
  have d: "''1 Main St, City'' \<in> dom [''1 Main St, City'' \<mapsto> Some (1, 2 :: rat)]" by simp
  note inst = lookup_at_most_once [where ops = example_ops and set_order = remdups
      and geopy_available = True and geocoder = example_geocoder and data = example_rows
      and headers = "[''Address'', ''Name'']" and document_name = "''people''"
      and address_column = "''Address''" and name_column = "Some ''Name''"
      and skip_geocoding = False and lat_column = None and lon_column = None
      and res = "projr example_run" and a = "''1 Main St, City''"
      and addresses = "[''1 Main St, City'', ''1 Main St, City'']"
      and results = "fst (projr ?b)" and effs = "snd (projr ?b)"
      and address_col = "''Address''" and cache = "[''1 Main St, City'' \<mapsto> Some (1, 2)]"
      and delay = "1"]
  note c1 = inst [THEN conjunct1, THEN mp, OF run]
  note c2 = inst [THEN conjunct2, THEN conjunct1, THEN mp, OF batch]
  note c3 = inst [THEN conjunct2, THEN conjunct2, THEN conjunct1, THEN mp, OF lists_set_remdups]
  note c4 = inst [THEN conjunct2, THEN conjunct2, THEN conjunct2, THEN mp, OF d]
  show ?thesis
    by (intro conjI) (fact r c1 b c2 lists_set_remdups c3 [THEN conjunct1] c3 [THEN conjunct2] d c4)+
qed

lemma example_run_effects:
  "effects (projr example_run) =
     [Print_Found 5, Print_GeocodingAddresses, Print_GeocodingUnique 3,
      Print_Progress 1 3 ''1 Main St, City'', Sleep 1, Geocode ''1 Main St, City'' 10,
      Print_Progress 2 3 ''2 Slow Rd'', Sleep 1, Geocode ''2 Slow Rd'' 10,
      Print_GeocodingError ''2 Slow Rd'' ''timed out'',
      Print_Progress 3 3 ''  '', Print_Warning [], Print_Warning ''2 Slow Rd'',
      Print_Warning ''  '', Print_Success 2 5, Print_Generating 2]"
  by code_simp

lemma example_run_Inr: "example_run = Inr (projr example_run)"
proof -
  have "\<not> isl example_run" by code_simp
  then show ?thesis by simp
qed

lemma example_batch_effects:
  "snd (projr (batch_geocode True example_geocoder [''2 Slow Rd''])) =
     [Print_Progress 1 1 ''2 Slow Rd'', Sleep 1, Geocode ''2 Slow Rd'' 10,
      Print_GeocodingError ''2 Slow Rd'' ''timed out'']"
  by code_simp

lemma example_batch_Inr:
  "batch_geocode True example_geocoder [''2 Slow Rd'']
     = Inr (fst (projr (batch_geocode True example_geocoder [''2 Slow Rd''])),
            snd (projr (batch_geocode True example_geocoder [''2 Slow Rd''])))"
proof -
  have "\<not> isl (batch_geocode True example_geocoder [''2 Slow Rd''])" by code_simp
  then show ?thesis by simp
qed

lemma not_blank_slow: "\<not> blank ''2 Slow Rd''"
  by code_simp

text \<open>
  Claim C3.  A sleep of the full delay comes immediately before every lookup: in the
  effects of a run and of \<open>batch_geocode\<close> (which uses the default delay 1), whatever
  precedes a lookup ends with \<open>Sleep 1\<close>; and on a cache miss \<open>geocode_address\<close>
  sleeps for its delay and then makes the one lookup, however the lookup ends.
\<close>

theorem sleep_precedes_every_lookup:
  "(convert_csv_to_kml ops set_order geopy_available geocoder data headers document_name
        address_column name_column skip_geocoding lat_column lon_column = Inr res \<and>
      effects res = pre @ Geocode a t # post
      \<longrightarrow> (\<exists>pre'. pre = pre' @ [Sleep 1])) \<and>
   (batch_geocode geopy_available geocoder addresses = Inr (results, effs) \<and>
      effs = bpre @ Geocode a t # bpost
      \<longrightarrow> (\<exists>pre'. bpre = pre' @ [Sleep 1])) \<and>
   (\<not> blank a \<and> cache a = None
      \<longrightarrow> (\<exists>rest. snd (snd (geocode_address geocoder a cache delay))
                    = Sleep delay # Geocode a 10 # rest \<and> lookups rest = []))"
proof (intro conjI impI)
  assume h: "convert_csv_to_kml ops set_order geopy_available geocoder data headers document_name
        address_column name_column skip_geocoding lat_column lon_column = Inr res \<and>
      effects res = pre @ Geocode a t # post"
  then have "sleep_before_each_lookup 1 (effects res)"
    using run_lookups by blast
  with h show "\<exists>pre'. pre = pre' @ [Sleep 1]"
    unfolding sleep_before_each_lookup_def by blast
next
  assume h: "batch_geocode geopy_available geocoder addresses = Inr (results, effs) \<and>
      effs = bpre @ Geocode a t # bpost"
  then have "sleep_before_each_lookup 1 effs"
    using batch_geocode_lookups by blast
  with h show "\<exists>pre'. bpre = pre' @ [Sleep 1]"
    unfolding sleep_before_each_lookup_def by blast
next
  assume h: "\<not> blank a \<and> cache a = None"
  obtain r c e where g: "geocode_address geocoder a cache delay = (r, c, e)"
    by (cases "geocode_address geocoder a cache delay") auto
  from geocode_address_effects [OF g] h g
  show "\<exists>rest. snd (snd (geocode_address geocoder a cache delay))
                    = Sleep delay # Geocode a 10 # rest \<and> lookups rest = []"
    by auto
qed

theorem sleep_precedes_every_lookup_witness:
  "(\<exists>pre'. [Print_Found 5, Print_GeocodingAddresses, Print_GeocodingUnique 3,
             Print_Progress 1 3 ''1 Main St, City'', Sleep 1, Geocode ''1 Main St, City'' 10,
             Print_Progress 2 3 ''2 Slow Rd'', Sleep 1] = pre' @ [Sleep 1]) \<and>
   (\<exists>pre'. [Print_Progress 1 1 ''2 Slow Rd'', Sleep 1] = pre' @ [Sleep 1]) \<and>
   (\<exists>rest. snd (snd (geocode_address example_geocoder ''2 Slow Rd'' Map.empty (1 / 2)))
              = Sleep (1 / 2) # Geocode ''2 Slow Rd'' 10 # rest \<and> lookups rest = [])"
proof -
  let ?b = "batch_geocode True example_geocoder [''2 Slow Rd'']"
  have run: "convert_csv_to_kml example_ops remdups True example_geocoder example_rows
       [''Address'', ''Name''] ''people'' ''Address'' (Some ''Name'') False None None
       = Inr (projr example_run)"
    using example_run_Inr by (simp add: example_run_def)
  have split: "effects (projr example_run) =
       [Print_Found 5, Print_GeocodingAddresses, Print_GeocodingUnique 3,
        Print_Progress 1 3 ''1 Main St, City'', Sleep 1, Geocode ''1 Main St, City'' 10,
        Print_Progress 2 3 ''2 Slow Rd'', Sleep 1]
       @ Geocode ''2 Slow Rd'' 10 #
       [Print_GeocodingError ''2 Slow Rd'' ''timed out'',
        Print_Progress 3 3 ''  '', Print_Warning [], Print_Warning ''2 Slow Rd'',
        Print_Warning ''  '', Print_Success 2 5, Print_Generating 2]"
    by (simp add: example_run_effects)
  have bsplit: "snd (projr ?b) = [Print_Progress 1 1 ''2 Slow Rd'', Sleep 1]
       @ Geocode ''2 Slow Rd'' 10 # [Print_GeocodingError ''2 Slow Rd'' ''timed out'']"
    by (simp add: example_batch_effects)
  have miss: "\<not> blank ''2 Slow Rd'' \<and> (Map.empty :: rat cache) ''2 Slow Rd'' = None"
    by (simp add: not_blank_slow)
  note inst = sleep_precedes_every_lookup [where ops = example_ops and set_order = remdups
      and geopy_available = True and geocoder = example_geocoder and data = example_rows
      and headers = "[''Address'', ''Name'']" and document_name = "''people''"
      and address_column = "''Address''" and name_column = "Some ''Name''"
      and skip_geocoding = False and lat_column = None and lon_column = None
      and res = "projr example_run" and a = "''2 Slow Rd''" and t = 10
      and pre = "[Print_Found 5, Print_GeocodingAddresses, Print_GeocodingUnique 3,
        Print_Progress 1 3 ''1 Main St, City'', Sleep 1, Geocode ''1 Main St, City'' 10,
        Print_Progress 2 3 ''2 Slow Rd'', Sleep 1]"
      and post = "[Print_GeocodingError ''2 Slow Rd'' ''timed out'',
        Print_Progress 3 3 ''  '', Print_Warning [], Print_Warning ''2 Slow Rd'',
        Print_Warning ''  '', Print_Success 2 5, Print_Generating 2]"
      and addresses = "[''2 Slow Rd'']"
      and results = "fst (projr ?b)" and effs = "snd (projr ?b)"
      and bpre = "[Print_Progress 1 1 ''2 Slow Rd'', Sleep 1]"
      and bpost = "[Print_GeocodingError ''2 Slow Rd'' ''timed out'']"
      and cache = "Map.empty" and delay = "1 / 2"]
  note c1 = inst [THEN conjunct1, THEN mp, OF conjI [OF run split]]
  note c2 = inst [THEN conjunct2, THEN conjunct1, THEN mp, OF conjI [OF example_batch_Inr bsplit]]
  note c3 = inst [THEN conjunct2, THEN conjunct2, THEN mp, OF miss]
  show ?thesis
    by (intro conjI) (fact c1 c2 c3)+
qed

lemma run_lookups_nonblank:
  assumes "convert_csv_to_kml ops so avail geocoder data headers doc ac nc skip lat lon = Inr res"
  shows "\<forall>a \<in> set (lookups (effects res)). \<not> blank a"
proof (cases "skip \<and> given lat \<and> given lon")
  case True
  from convert_coord_path [OF assms True] obtain lat_c lon_c pms effs where
    c: "coord_rows ops headers ac nc lat_c lon_c 1 data = (pms, effs)"
    and e: "effects res = [Print_Found (length data), Print_UsingColumns] @ effs
                    @ [Print_Generating (length pms)]"
    by blast
  from coord_rows_lookups [OF c] e have "lookups (effects res) = []"
    by (simp add: lookups_append)
  then show ?thesis by simp
next
  case False
  from convert_geo_path [OF assms False] obtain col results geffs pms n reffs where
    b: "batch_geocode avail geocoder (so (truthy_addresses col data)) = Inr (results, geffs)"
    and g: "geo_rows headers col nc results data = (pms, n, reffs)"
    and e: "effects res = [Print_Found (length data), Print_GeocodingAddresses,
                     Print_GeocodingUnique (length (so (truthy_addresses col data)))]
                    @ geffs @ reffs @ [Print_Success n (length data), Print_Generating (length pms)]"
    by blast
  from geo_rows_lookups [OF g] have r: "lookups reffs = []" .
  with e have "lookups (effects res) = lookups geffs" by (simp add: lookups_append)
  with batch_geocode_lookups [OF b] show ?thesis by simp
qed

lemma blank_spaces: "blank ''  ''"
  by code_simp

text \<open>
  Claim C4, as the program has it.  The list handed to \<open>batch_geocode\<close> holds the
  distinct non-empty address strings of the rows; a whitespace-only address stays in it.
  For an empty or whitespace-only address \<open>geocode_address\<close> returns \<open>None\<close>
  without a lookup and without touching the cache, so neither is ever submitted to the
  geocoder, in a run or in any call of \<open>batch_geocode\<close>.
\<close>

theorem blank_addresses_never_submitted:
  "(lists_set set_order \<longrightarrow>
      distinct (set_order (truthy_addresses address_col data)) \<and>
      set (set_order (truthy_addresses address_col data))
        = {a. a \<noteq> [] \<and> (\<exists>r \<in> set data. row_address address_col r = Str a)}) \<and>
   (blank a \<longrightarrow> geocode_address geocoder a cache delay = (None, cache, [])) \<and>
   (convert_csv_to_kml ops set_order geopy_available geocoder data headers document_name
        address_column name_column skip_geocoding lat_column lon_column = Inr res \<and>
      b \<in> set (lookups (effects res)) \<longrightarrow> \<not> blank b) \<and>
   (batch_geocode geopy_available geocoder addresses = Inr (results, effs) \<and>
      c \<in> set (lookups effs) \<longrightarrow> \<not> blank c)"
proof (intro conjI impI)
  assume "lists_set set_order"
  then show "distinct (set_order (truthy_addresses address_col data))"
    by (simp add: lists_set_def)
next
  assume "lists_set set_order"
  then have "set (set_order (truthy_addresses address_col data))
      = set (truthy_addresses address_col data)"
    by (simp add: lists_set_def)
  then show "set (set_order (truthy_addresses address_col data))
        = {a. a \<noteq> [] \<and> (\<exists>r \<in> set data. row_address address_col r = Str a)}"
    by (simp add: truthy_addresses_set)
next
  assume "blank a"
  then show "geocode_address geocoder a cache delay = (None, cache, [])"
    by (simp add: geocode_address_def blank_def)
next
  assume "convert_csv_to_kml ops set_order geopy_available geocoder data headers document_name
        address_column name_column skip_geocoding lat_column lon_column = Inr res \<and>
      b \<in> set (lookups (effects res))"
  then show "\<not> blank b" using run_lookups_nonblank by blast
next
  assume "batch_geocode geopy_available geocoder addresses = Inr (results, effs) \<and>
      c \<in> set (lookups effs)"
  then show "\<not> blank c" using batch_geocode_lookups by blast
qed

theorem blank_addresses_never_submitted_witness:
  "lists_set remdups \<and>
   distinct (remdups (truthy_addresses ''Address'' example_rows)) \<and>
   blank ''  '' \<and>
   geocode_address example_geocoder ''  '' Map.empty 1 = (None, Map.empty, []) \<and>
   ''2 Slow Rd'' \<in> set (lookups (effects (projr example_run))) \<and>
   \<not> blank ''2 Slow Rd'' \<and>
   ''2 Slow Rd'' \<in> set (lookups (snd (projr (batch_geocode True example_geocoder [''2 Slow Rd''])))) "
proof -
  let ?b = "batch_geocode True example_geocoder [''2 Slow Rd'']"
  have run: "convert_csv_to_kml example_ops remdups True example_geocoder example_rows
       [''Address'', ''Name''] ''people'' ''Address'' (Some ''Name'') False None None
       = Inr (projr example_run)"
    using example_run_Inr by (simp add: example_run_def)
  have m1: "''2 Slow Rd'' \<in> set (lookups (effects (projr example_run)))"
    by (simp add: example_run_effects)
  have m2: "''2 Slow Rd'' \<in> set (lookups (snd (projr ?b)))"
    by (simp add: example_batch_effects)
  note inst = blank_addresses_never_submitted [where ops = example_ops and set_order = remdups
      and geopy_available = True and geocoder = example_geocoder and data = example_rows
      and headers = "[''Address'', ''Name'']" and document_name = "''people''"
      and address_column = "''Address''" and name_column = "Some ''Name''"
      and skip_geocoding = False and lat_column = None and lon_column = None
      and res = "projr example_run" and a = "''  ''" and b = "''2 Slow Rd''"
      and c = "''2 Slow Rd''" and address_col = "''Address''"
      and addresses = "[''2 Slow Rd'']"
      and results = "fst (projr ?b)" and effs = "snd (projr ?b)"
      and cache = "Map.empty" and delay = "1"]
  note c1 = inst [THEN conjunct1, THEN mp, OF lists_set_remdups, THEN conjunct1]
  note c2 = inst [THEN conjunct2, THEN conjunct1, THEN mp, OF blank_spaces]
  note c3 = inst [THEN conjunct2, THEN conjunct2, THEN conjunct1, THEN mp, OF conjI [OF run m1]]
  note c4 = inst [THEN conjunct2, THEN conjunct2, THEN conjunct2, THEN mp,
      OF conjI [OF example_batch_Inr m2]]
  show ?thesis
    by (intro conjI) (fact lists_set_remdups c1 blank_spaces c2 m1 c3 m2)+
qed

text \<open>
  Claim C4 as stated fails: the whitespace-only address of the fifth example row is in
  the list handed to the resolver, and the resolver reports progress on it.
\<close>

theorem whitespace_address_in_resolver_input:
  "py_strip ''  '' = [] \<and>
   ''  '' \<in> set (remdups (truthy_addresses ''Address'' example_rows)) \<and>
   Print_Progress 3 3 ''  '' \<in> set (effects (projr example_run))"
proof (intro conjI)
  show "py_strip ''  '' = []" by code_simp
  show "''  '' \<in> set (remdups (truthy_addresses ''Address'' example_rows))" by code_simp
  show "Print_Progress 3 3 ''  '' \<in> set (effects (projr example_run))"
    by (simp add: example_run_effects)
qed

lemma batch_geocode_total:
  "\<exists>results effs. batch_geocode True geocoder addrs = Inr (results, effs)"
  by (cases "batch_loop geocoder (length addrs) 1 addrs Map.empty Map.empty")
     (simp add: batch_geocode_def)

lemma convert_geo_outcome:
  assumes "data \<noteq> []" and "\<not> (skip \<and> given lat \<and> given lon)"
    and "find_address_column headers ac = Inr col"
    and "batch_geocode avail geocoder (so (truthy_addresses col data)) = Inr (results, geffs)"
    and "geo_rows headers col nc results data = (pms, n, reffs)"
  shows "convert_csv_to_kml ops so avail geocoder data headers doc ac nc skip lat lon
     = (case generate_kml ops pms doc of
          Inl e \<Rightarrow> Inl e
        | Inr content \<Rightarrow>
            Inr \<lparr>placemarks = pms, kml_content = content,
                 effects = [Print_Found (length data), Print_GeocodingAddresses,
                            Print_GeocodingUnique (length (so (truthy_addresses col data)))]
                           @ geffs @ reffs
                           @ [Print_Success n (length data), Print_Generating (length pms)]\<rparr>)"
  using assms by (auto simp: convert_csv_to_kml_def Let_def)

lemma geocoded_get_resolve:
  assumes b: "batch_geocode avail geocoder (so (truthy_addresses col data)) = Inr (results, geffs)"
    and so: "lists_set so"
  shows "\<forall>r \<in> set data. geocoded_get results (row_address col r)
           = (case row_address col r of NoneV \<Rightarrow> None | Str a \<Rightarrow> resolve geocoder a)"
proof
  from batch_geocode_results [OF b] so
  have dom: "dom results = set (truthy_addresses col data)" and ok: "cache_ok geocoder results"
    by (simp_all add: lists_set_def)
  fix r assume r: "r \<in> set data"
  show "geocoded_get results (row_address col r)
         = (case row_address col r of NoneV \<Rightarrow> None | Str a \<Rightarrow> resolve geocoder a)"
  proof (cases "row_address col r")
    case NoneV
    then show ?thesis by (simp add: geocoded_get_def)
  next
    case (Str a)
    show ?thesis
    proof (cases "a = []")
      case True
      then have "a \<notin> dom results" unfolding dom truthy_addresses_set by simp
      then have "results a = None" by blast
      with Str True show ?thesis
        by (simp add: geocoded_get_def resolve_def blank_def)
    next
      case False
      with r Str have "a \<in> dom results" unfolding dom truthy_addresses_set by blast
      then obtain v where v: "results a = Some v" by blast
      with ok have "v = resolve geocoder a" by (simp add: cache_ok_def)
      with Str v show ?thesis by (simp add: geocoded_get_def)
    qed
  qed
qed


text \<open>
  Claim C2, as the program has it.  On a cache miss and with a delay that is not
  negative, a time-out or service error of the provider makes \<open>geocode_address\<close>
  print a diagnostic with the address and the error, store \<open>None\<close> for the address and
  return \<open>None\<close>; any other exception does the same with its own diagnostic; an empty
  lookup result stores and returns \<open>None\<close> and prints nothing.  No exception leaves the
  resolver: for rows keyed by header columns, once the address column is found and the
  geocoder is available, the markers handed to the serializer are those of the rows whose
  address was resolved, whatever the geocoder answers, and the run ends as the serializer
  does on these markers; a row whose address did not resolve to a location contributes no
  marker.
\<close>

theorem geocode_failure_is_not_fatal:
  "(\<not> blank a \<and> cache a = None \<and> 0 \<le> delay \<and>
      (geocoder a = GeocoderTimedOut e \<or> geocoder a = GeocoderServiceError e)
      \<longrightarrow> geocode_address geocoder a cache delay
            = (None, cache(a \<mapsto> None),
               [Sleep delay, Geocode a 10, Print_GeocodingError a e])) \<and>
   (\<not> blank a \<and> cache a = None \<and> 0 \<le> delay \<and> geocoder a = OtherException e
      \<longrightarrow> geocode_address geocoder a cache delay
            = (None, cache(a \<mapsto> None),
               [Sleep delay, Geocode a 10, Print_UnexpectedError a e])) \<and>
   (\<not> blank a \<and> cache a = None \<and> 0 \<le> delay \<and> geocoder a = NoResult
      \<longrightarrow> geocode_address geocoder a cache delay
            = (None, cache(a \<mapsto> None), [Sleep delay, Geocode a 10])) \<and>
   (lists_set set_order \<and> data \<noteq> [] \<and> (\<forall>r \<in> set data. fst ` set r \<subseteq> set headers) \<and>
      \<not> (skip_geocoding \<and> given lat_column \<and> given lon_column) \<and>
      find_address_column headers address_column = Inr address_col
      \<longrightarrow> (\<exists>geffs reffs.
            convert_csv_to_kml ops set_order True geocoder data headers document_name
                address_column name_column skip_geocoding lat_column lon_column
            = (case generate_kml ops
                      (List.map_filter (geo_row_marker geocoder headers address_col name_column) data)
                      document_name of
                 Inl err \<Rightarrow> Inl err
               | Inr content \<Rightarrow>
                   Inr \<lparr>placemarks =
                          List.map_filter (geo_row_marker geocoder headers address_col name_column) data,
                        kml_content = content,
                        effects =
                          [Print_Found (length data), Print_GeocodingAddresses,
                           Print_GeocodingUnique
                             (length (set_order (truthy_addresses address_col data)))]
                          @ geffs @ reffs
                          @ [Print_Success
                               (length (List.map_filter
                                  (geo_row_marker geocoder headers address_col name_column) data))
                               (length data),
                             Print_Generating
                               (length (List.map_filter
                                  (geo_row_marker geocoder headers address_col name_column) data))]\<rparr>))) \<and>
   (row_address address_col r = Str a \<and> (\<forall>lat lon. geocoder a \<noteq> Location lat lon)
      \<longrightarrow> geo_row_marker geocoder headers address_col name_column r = None)"
proof (intro conjI impI)
  assume "\<not> blank a \<and> cache a = None \<and> 0 \<le> delay \<and>
      (geocoder a = GeocoderTimedOut e \<or> geocoder a = GeocoderServiceError e)"
  then show "geocode_address geocoder a cache delay
            = (None, cache(a \<mapsto> None), [Sleep delay, Geocode a 10, Print_GeocodingError a e])"
    by (auto simp: geocode_address_def blank_def)
next
  assume "\<not> blank a \<and> cache a = None \<and> 0 \<le> delay \<and> geocoder a = OtherException e"
  then show "geocode_address geocoder a cache delay
            = (None, cache(a \<mapsto> None), [Sleep delay, Geocode a 10, Print_UnexpectedError a e])"
    by (auto simp: geocode_address_def blank_def)
next
  assume "\<not> blank a \<and> cache a = None \<and> 0 \<le> delay \<and> geocoder a = NoResult"
  then show "geocode_address geocoder a cache delay
            = (None, cache(a \<mapsto> None), [Sleep delay, Geocode a 10])"
    by (auto simp: geocode_address_def blank_def)
next
  let ?M = "List.map_filter (geo_row_marker geocoder headers address_col name_column) data"
  assume h: "lists_set set_order \<and> data \<noteq> [] \<and> (\<forall>r \<in> set data. fst ` set r \<subseteq> set headers) \<and>
      \<not> (skip_geocoding \<and> given lat_column \<and> given lon_column) \<and>
      find_address_column headers address_column = Inr address_col"
  obtain results geffs where
    b: "batch_geocode True geocoder (set_order (truthy_addresses address_col data))
          = Inr (results, geffs)"
    using batch_geocode_total by blast
  obtain pms n reffs where
    g: "geo_rows headers address_col name_column results data = (pms, n, reffs)"
    by (cases "geo_rows headers address_col name_column results data") auto
  from h have so: "lists_set set_order" by blast
  from geo_rows_markers [OF g geocoded_get_resolve [OF b so]]
  have m: "pms = ?M" "n = length ?M" by simp_all
  from h have d: "data \<noteq> []"
    and path: "\<not> (skip_geocoding \<and> given lat_column \<and> given lon_column)"
    and col: "find_address_column headers address_column = Inr address_col"
    by blast+
  from convert_geo_outcome [where so = set_order and ops = ops and doc = document_name,
      OF d path col b g]
  show "\<exists>geffs reffs.
            convert_csv_to_kml ops set_order True geocoder data headers document_name
                address_column name_column skip_geocoding lat_column lon_column
            = (case generate_kml ops ?M document_name of
                 Inl err \<Rightarrow> Inl err
               | Inr content \<Rightarrow>
                   Inr \<lparr>placemarks = ?M,
                        kml_content = content,
                        effects =
                          [Print_Found (length data), Print_GeocodingAddresses,
                           Print_GeocodingUnique
                             (length (set_order (truthy_addresses address_col data)))]
                          @ geffs @ reffs
                          @ [Print_Success (length ?M) (length data),
                             Print_Generating (length ?M)]\<rparr>)"
    unfolding m by blast
next
  assume h: "row_address address_col r = Str a \<and> (\<forall>lat lon. geocoder a \<noteq> Location lat lon)"
  then have "resolve geocoder a = None"
    by (cases "geocoder a") (auto simp: resolve_def)
  with h show "geo_row_marker geocoder headers address_col name_column r = None"
    by (simp add: geo_row_marker_def)
qed

lemma not_blank_examples: "\<not> blank ''3 Nowhere''" "\<not> blank ''4 Broken Ln''"
  by code_simp+

lemma example_address_column:
  "find_address_column [''Address'', ''Name''] ''Address'' = Inr ''Address''"
  by (simp add: find_address_column_def)

lemma example_markers_serialize:
  "generate_kml example_ops
     (List.map_filter
        (geo_row_marker example_geocoder [''Address'', ''Name''] ''Address'' (Some ''Name''))
        example_rows) ''people''
   = Inr (projr (generate_kml example_ops
     (List.map_filter
        (geo_row_marker example_geocoder [''Address'', ''Name''] ''Address'' (Some ''Name''))
        example_rows) ''people''))"
proof -
  have "\<not> isl (generate_kml example_ops
     (List.map_filter
        (geo_row_marker example_geocoder [''Address'', ''Name''] ''Address'' (Some ''Name''))
        example_rows) ''people'')"
    by code_simp
  then show ?thesis by simp
qed

theorem geocode_failure_is_not_fatal_witness:
  "geocode_address example_geocoder ''2 Slow Rd'' Map.empty 1
     = (None, [''2 Slow Rd'' \<mapsto> None],
        [Sleep 1, Geocode ''2 Slow Rd'' 10, Print_GeocodingError ''2 Slow Rd'' ''timed out'']) \<and>
   geocode_address example_geocoder ''4 Broken Ln'' Map.empty 1
     = (None, [''4 Broken Ln'' \<mapsto> None],
        [Sleep 1, Geocode ''4 Broken Ln'' 10, Print_UnexpectedError ''4 Broken Ln'' ''boom'']) \<and>
   geocode_address example_geocoder ''3 Nowhere'' Map.empty 1
     = (None, [''3 Nowhere'' \<mapsto> None], [Sleep 1, Geocode ''3 Nowhere'' 10]) \<and>
   (\<exists>res. example_run = Inr res \<and>
      placemarks res = List.map_filter
        (geo_row_marker example_geocoder [''Address'', ''Name''] ''Address'' (Some ''Name''))
        example_rows) \<and>
   row_address ''Address'' [(''Address'', Str ''2 Slow Rd''), (''Name'', Str ''Dan'')]
     = Str ''2 Slow Rd'' \<and>
   geo_row_marker example_geocoder [''Address'', ''Name''] ''Address'' (Some ''Name'')
     [(''Address'', Str ''2 Slow Rd''), (''Name'', Str ''Dan'')] = None"
proof -
  have h1: "\<not> blank ''2 Slow Rd'' \<and> (Map.empty :: rat cache) ''2 Slow Rd'' = None \<and> (0::rat) \<le> 1 \<and>
      (example_geocoder ''2 Slow Rd'' = GeocoderTimedOut ''timed out'' \<or>
       example_geocoder ''2 Slow Rd'' = GeocoderServiceError ''timed out'')"
    by (simp add: not_blank_slow example_geocoder_def)
  have h2: "\<not> blank ''4 Broken Ln'' \<and> (Map.empty :: rat cache) ''4 Broken Ln'' = None \<and> (0::rat) \<le> 1 \<and>
      example_geocoder ''4 Broken Ln'' = OtherException ''boom''"
    by (simp add: not_blank_examples example_geocoder_def)
  have h3: "\<not> blank ''3 Nowhere'' \<and> (Map.empty :: rat cache) ''3 Nowhere'' = None \<and> (0::rat) \<le> 1 \<and>
      example_geocoder ''3 Nowhere'' = NoResult"
    by (simp add: not_blank_examples example_geocoder_def)
  have h4: "lists_set remdups \<and> example_rows \<noteq> [] \<and>
      (\<forall>r \<in> set example_rows. fst ` set r \<subseteq> set [''Address'', ''Name'']) \<and>
      \<not> (False \<and> given None \<and> given None) \<and>
      find_address_column [''Address'', ''Name''] ''Address'' = Inr ''Address''"
    by (simp add: lists_set_remdups example_address_column example_rows_def)
  have ra: "row_address ''Address'' [(''Address'', Str ''2 Slow Rd''), (''Name'', Str ''Dan'')]
     = Str ''2 Slow Rd''"
    by (simp add: row_address_def dict_get_def)
  have h5: "row_address ''Address'' [(''Address'', Str ''2 Slow Rd''), (''Name'', Str ''Dan'')]
     = Str ''2 Slow Rd'' \<and> (\<forall>lat lon. example_geocoder ''2 Slow Rd'' \<noteq> Location lat lon)"
    by (simp add: ra example_geocoder_def)
  note c1 = geocode_failure_is_not_fatal [where geocoder = example_geocoder
      and a = "''2 Slow Rd''" and cache = Map.empty and e = "''timed out''" and delay = "1",
      THEN conjunct1, THEN mp, OF h1]
  note c2 = geocode_failure_is_not_fatal [where geocoder = example_geocoder
      and a = "''4 Broken Ln''" and cache = Map.empty and e = "''boom''" and delay = "1",
      THEN conjunct2, THEN conjunct1, THEN mp, OF h2]
  note c3 = geocode_failure_is_not_fatal [where geocoder = example_geocoder
      and a = "''3 Nowhere''" and cache = Map.empty and delay = "1",
      THEN conjunct2, THEN conjunct2, THEN conjunct1, THEN mp, OF h3]
  note c4 = geocode_failure_is_not_fatal [where ops = example_ops and set_order = remdups
      and geocoder = example_geocoder and data = example_rows
      and headers = "[''Address'', ''Name'']" and document_name = "''people''"
      and address_column = "''Address''" and name_column = "Some ''Name''"
      and skip_geocoding = False and lat_column = None and lon_column = None
      and address_col = "''Address''",
      THEN conjunct2, THEN conjunct2, THEN conjunct2, THEN conjunct1, THEN mp, OF h4,
      folded example_run_def]
  from c4 obtain geffs reffs where run: "example_run
      = (case generate_kml example_ops
                (List.map_filter
                   (geo_row_marker example_geocoder [''Address'', ''Name''] ''Address'' (Some ''Name''))
                   example_rows) ''people'' of
           Inl err \<Rightarrow> Inl err
         | Inr content \<Rightarrow>
             Inr \<lparr>placemarks =
                    List.map_filter
                      (geo_row_marker example_geocoder [''Address'', ''Name''] ''Address'' (Some ''Name''))
                      example_rows,
                  kml_content = content,
                  effects =
                    [Print_Found (length example_rows), Print_GeocodingAddresses,
                     Print_GeocodingUnique (length (remdups (truthy_addresses ''Address'' example_rows)))]
                    @ geffs @ reffs
                    @ [Print_Success
                         (length (List.map_filter
                            (geo_row_marker example_geocoder [''Address'', ''Name''] ''Address''
                               (Some ''Name'')) example_rows))
                         (length example_rows),
                       Print_Generating
                         (length (List.map_filter
                            (geo_row_marker example_geocoder [''Address'', ''Name''] ''Address''
                               (Some ''Name'')) example_rows))]\<rparr>)"
    by blast
  have c4': "\<exists>res. example_run = Inr res \<and>
      placemarks res = List.map_filter
        (geo_row_marker example_geocoder [''Address'', ''Name''] ''Address'' (Some ''Name''))
        example_rows"
    unfolding run by (subst example_markers_serialize) simp
  note c5 = geocode_failure_is_not_fatal [where geocoder = example_geocoder
      and a = "''2 Slow Rd''" and address_col = "''Address''"
      and headers = "[''Address'', ''Name'']" and name_column = "Some ''Name''"
      and r = "[(''Address'', Str ''2 Slow Rd''), (''Name'', Str ''Dan'')]",
      THEN conjunct2, THEN conjunct2, THEN conjunct2, THEN conjunct2, THEN mp, OF h5]
  show ?thesis
    by (intro conjI) (fact c1 c2 c3 c4' ra c5)+
qed

text \<open>
  Claim C2 as stated fails for an empty lookup result: \<open>geocode_address\<close> returns
  \<open>None\<close> and prints no diagnostic.
\<close>

theorem empty_result_prints_no_diagnostic:
  "example_geocoder ''3 Nowhere'' = NoResult \<and>
   fst (geocode_address example_geocoder ''3 Nowhere'' Map.empty 1) = None \<and>
   snd (snd (geocode_address example_geocoder ''3 Nowhere'' Map.empty 1))
     = [Sleep 1, Geocode ''3 Nowhere'' 10]"
  by (intro conjI) code_simp+







text \<open>A control character in a cell that reaches the document makes the serializer fail.\<close>

lemma control_character_aborts:
  "convert_csv_to_kml example_ops remdups False example_geocoder
     [[(''Lat'', Str ''10.0''), (''Lon'', Str ''20.0''), (''Name'', Str [CHR 0x01])]]
     [''Lat'', ''Lon'', ''Name''] ''points'' ''Address'' (Some ''Name'') True
     (Some ''Lat'') (Some ''Lon'') = Inl ExpatError"
  "convert_csv_to_kml example_ops remdups True example_geocoder
     [[(''Address'', Str ''1 Main St, City''), (''Name'', Str [CHR 0x0B])]]
     [''Address'', ''Name''] ''people'' ''Address'' (Some ''Name'') False None None
   = Inl ExpatError"
  by code_simp+


lemma data_entries_block:
  "data_entries (Element ''ExtendedData'' [] None (map data_element ed))
     = map (\<lambda>kv. (fst kv, py_str (snd kv))) ed"
  by (induction ed) (simp_all add: data_entries_def data_element_def text_element_def)

lemma block_entries_placemark:
  "block_entries (placemark_element ops pm)
     = map (\<lambda>kv. (fst kv, py_str (snd kv))) (pm_extended_data pm)"
proof (cases "pm_extended_data pm = []")
  case True
  then show ?thesis
    by (simp add: block_entries_def placemark_element_def text_element_def)
next
  case False
  then show ?thesis
    by (simp add: block_entries_def placemark_element_def text_element_def data_entries_block)
qed

lemma coord_attributes:
  assumes "fst ` set r \<subseteq> set headers"
  shows "pm_extended_data (coord_placemark headers ac nc lat_c lon_c idx r coords)
     = filter (\<lambda>kv. fst kv \<notin> {lat_c, lon_c, ac} \<union> name_consumed headers nc \<and> truthy (snd kv)) r"
proof -
  have "\<And>kv. kv \<in> set r \<Longrightarrow>
      (fst kv \<notin> set (coord_excluded headers ac nc lat_c lon_c))
        = (fst kv \<notin> {lat_c, lon_c, ac} \<union> name_consumed headers nc)"
  proof -
    fix kv assume "kv \<in> set r"
    with assms have "fst kv \<in> set headers" by auto
    then show "(fst kv \<notin> set (coord_excluded headers ac nc lat_c lon_c))
        = (fst kv \<notin> {lat_c, lon_c, ac} \<union> name_consumed headers nc)"
      by (cases nc) (auto simp: coord_excluded_def name_consumed_def)
  qed
  then have "filter (\<lambda>kv. fst kv \<notin> set (coord_excluded headers ac nc lat_c lon_c) \<and> truthy (snd kv)) r
      = filter (\<lambda>kv. fst kv \<notin> {lat_c, lon_c, ac} \<union> name_consumed headers nc \<and> truthy (snd kv)) r"
    by (intro filter_cong) auto
  then show ?thesis
    by (simp add: coord_placemark_def Let_def case_prod_unfold)
qed

lemma geo_attributes:
  assumes "fst ` set r \<subseteq> set headers"
  shows "pm_extended_data (geo_placemark headers col nc r address coords)
     = filter (\<lambda>kv. fst kv \<notin> {col} \<union> name_consumed headers nc \<and> truthy (snd kv)) r"
proof -
  have "\<And>kv. kv \<in> set r \<Longrightarrow>
      (fst kv \<notin> set (geo_excluded col nc)) = (fst kv \<notin> {col} \<union> name_consumed headers nc)"
  proof -
    fix kv assume "kv \<in> set r"
    with assms have "fst kv \<in> set headers" by auto
    then show "(fst kv \<notin> set (geo_excluded col nc)) = (fst kv \<notin> {col} \<union> name_consumed headers nc)"
      by (cases nc) (auto simp: geo_excluded_def name_consumed_def)
  qed
  then have "filter (\<lambda>kv. fst kv \<notin> set (geo_excluded col nc) \<and> truthy (snd kv)) r
      = filter (\<lambda>kv. fst kv \<notin> {col} \<union> name_consumed headers nc \<and> truthy (snd kv)) r"
    by (intro filter_cong) auto
  then show ?thesis
    by (simp add: geo_placemark_def Let_def case_prod_unfold)
qed

lemma coord_rows_members:
  assumes "coord_rows ops headers ac nc lat_c lon_c idx data = (pms, effs)" and "pm \<in> set pms"
  shows "\<exists>r \<in> set data. \<exists>i coords. pm = coord_placemark headers ac nc lat_c lon_c i r coords"
  using assms
proof (induction data arbitrary: idx pms effs)
  case Nil
  then show ?case by simp
next
  case (Cons r rest)
  obtain p2 e2 where c: "coord_rows ops headers ac nc lat_c lon_c (idx + 1) rest = (p2, e2)"
    by (cases "coord_rows ops headers ac nc lat_c lon_c (idx + 1) rest") auto
  from Cons.prems c have "pms = p2 \<or> (\<exists>coords. pms = coord_placemark headers ac nc lat_c lon_c idx r coords # p2)"
    by (auto split: option.splits)
  with Cons.prems(2) have "pm \<in> set p2 \<or> (\<exists>coords. pm = coord_placemark headers ac nc lat_c lon_c idx r coords)"
    by auto
  then show ?case
  proof
    assume "pm \<in> set p2"
    from Cons.IH [OF c this] show ?thesis by auto
  next
    assume "\<exists>coords. pm = coord_placemark headers ac nc lat_c lon_c idx r coords"
    then show ?thesis by auto
  qed
qed

lemma geo_rows_members:
  assumes "geo_rows headers col nc geocoded data = (pms, n, effs)" and "pm \<in> set pms"
  shows "\<exists>r \<in> set data. \<exists>coords. pm = geo_placemark headers col nc r (row_address col r) coords"
  using assms
proof (induction data arbitrary: pms n effs)
  case Nil
  then show ?case by simp
next
  case (Cons r rest)
  obtain p2 n2 e2 where g: "geo_rows headers col nc geocoded rest = (p2, n2, e2)"
    by (cases "geo_rows headers col nc geocoded rest") auto
  from Cons.prems g have "pms = p2 \<or>
      (\<exists>coords. pms = geo_placemark headers col nc r (row_address col r) coords # p2)"
    by (auto simp: Let_def row_address_def split: option.splits)
  with Cons.prems(2) have "pm \<in> set p2 \<or>
      (\<exists>coords. pm = geo_placemark headers col nc r (row_address col r) coords)"
    by auto
  then show ?case
  proof
    assume "pm \<in> set p2"
    from Cons.IH [OF g this] show ?thesis by auto
  next
    assume "\<exists>coords. pm = geo_placemark headers col nc r (row_address col r) coords"
    then show ?thesis by auto
  qed
qed

lemma attributes_of_iff:
  "(k, v) \<in> set (attributes_of consumed r)
     \<longleftrightarrow> (\<exists>c. (k, c) \<in> set r \<and> k \<notin> consumed \<and> truthy c \<and> v = py_str c)"
  by (force simp: attributes_of_def)

lemma run_markers:
  assumes conv: "convert_csv_to_kml ops so avail geocoder data headers doc ac nc skip lat lon = Inr res"
    and pm: "pm \<in> set (placemarks res)"
  shows "\<exists>r \<in> set data. \<exists>i coords.
           if skip \<and> given lat \<and> given lon
           then pm = coord_placemark headers ac nc (the lat) (the lon) i r coords
           else (\<exists>col. find_address_column headers ac = Inr col \<and>
                       pm = geo_placemark headers col nc r (row_address col r) coords)"
proof (cases "skip \<and> given lat \<and> given lon")
  case True
  from convert_coord_path [OF conv True] obtain lat_c lon_c pms effs where
    l: "lat = Some lat_c" "lon = Some lon_c"
    and c: "coord_rows ops headers ac nc lat_c lon_c 1 data = (pms, effs)"
    and p: "placemarks res = pms"
    by blast
  from coord_rows_members [OF c] pm p l True show ?thesis by auto
next
  case False
  from convert_geo_path [OF conv False] obtain col results geffs pms n reffs where
    f: "find_address_column headers ac = Inr col"
    and g: "geo_rows headers col nc results data = (pms, n, reffs)"
    and p: "placemarks res = pms"
    by blast
  from geo_rows_members [OF g] pm p f False show ?thesis by auto
qed

text \<open>
  Claim C7.  With rows whose keys are header columns, the \<open>ExtendedData\<close> block of a
  marker built in either path holds, in row order, exactly the column/value pairs of the
  row whose column is not the one read as latitude, longitude, address or name and whose
  value is not empty or \<open>None\<close>; and every marker of a run is built that way from one of
  its rows.
\<close>

theorem attributes_exclude_consumed_columns:
  "(fst ` set r \<subseteq> set headers \<longrightarrow>
      block_entries (placemark_element ops
          (coord_placemark headers address_column name_column lat_c lon_c idx r coords))
        = attributes_of ({lat_c, lon_c, address_column} \<union> name_consumed headers name_column) r) \<and>
   (fst ` set r \<subseteq> set headers \<longrightarrow>
      block_entries (placemark_element ops
          (geo_placemark headers address_col name_column r address coords))
        = attributes_of ({address_col} \<union> name_consumed headers name_column) r) \<and>
   (convert_csv_to_kml ops set_order geopy_available geocoder data headers document_name
        address_column name_column skip_geocoding lat_column lon_column = Inr res \<and>
      pm \<in> set (placemarks res) \<longrightarrow>
      (\<exists>r \<in> set data. \<exists>i coords.
          if skip_geocoding \<and> given lat_column \<and> given lon_column
          then pm = coord_placemark headers address_column name_column
                      (the lat_column) (the lon_column) i r coords
          else (\<exists>col. find_address_column headers address_column = Inr col \<and>
                      pm = geo_placemark headers col name_column r (row_address col r) coords))) \<and>
   ((k, v) \<in> set (attributes_of consumed r)
      \<longleftrightarrow> (\<exists>c. (k, c) \<in> set r \<and> k \<notin> consumed \<and> truthy c \<and> v = py_str c))"
proof (intro conjI impI)
  assume "fst ` set r \<subseteq> set headers"
  then show "block_entries (placemark_element ops
          (coord_placemark headers address_column name_column lat_c lon_c idx r coords))
        = attributes_of ({lat_c, lon_c, address_column} \<union> name_consumed headers name_column) r"
    by (simp add: block_entries_placemark coord_attributes attributes_of_def)
next
  assume "fst ` set r \<subseteq> set headers"
  then show "block_entries (placemark_element ops
          (geo_placemark headers address_col name_column r address coords))
        = attributes_of ({address_col} \<union> name_consumed headers name_column) r"
    by (simp add: block_entries_placemark geo_attributes attributes_of_def)
next
  assume "convert_csv_to_kml ops set_order geopy_available geocoder data headers document_name
        address_column name_column skip_geocoding lat_column lon_column = Inr res \<and>
      pm \<in> set (placemarks res)"
  then show "\<exists>r \<in> set data. \<exists>i coords.
          if skip_geocoding \<and> given lat_column \<and> given lon_column
          then pm = coord_placemark headers address_column name_column
                      (the lat_column) (the lon_column) i r coords
          else (\<exists>col. find_address_column headers address_column = Inr col \<and>
                      pm = geo_placemark headers col name_column r (row_address col r) coords)"
    using run_markers by blast
next
  show "(k, v) \<in> set (attributes_of consumed r)
      \<longleftrightarrow> (\<exists>c. (k, c) \<in> set r \<and> k \<notin> consumed \<and> truthy c \<and> v = py_str c)"
    by (rule attributes_of_iff)
qed

theorem attributes_exclude_consumed_columns_witness:
  "block_entries (placemark_element example_ops
       (coord_placemark example_attr_headers ''Address'' (Some ''Name'') ''Lat'' ''Lon'' 1
          example_attr_row (20, 10)))
     = [(''Phone'', ''555'')] \<and>
   block_entries (placemark_element example_ops
       (geo_placemark example_attr_headers ''Address'' (Some ''Name'')
          example_attr_row (Str ''1 Main St, City'') (20, 10)))
     = [(''Lat'', ''10.0''), (''Lon'', ''20.0''), (''Phone'', ''555'')] \<and>
   (\<exists>r \<in> set example_rows. \<exists>coords col.
      find_address_column [''Address'', ''Name''] ''Address'' = Inr col \<and>
      \<lparr>pm_name = Str ''Bob'', pm_coordinates = (- 7105 / 100, 4236 / 100 :: rat),
       pm_description = Str ''1 Main St, City'', pm_extended_data = []\<rparr>
      = geo_placemark [''Address'', ''Name''] col (Some ''Name'') r (row_address col r) coords)"
proof -
  have keys: "fst ` set example_attr_row \<subseteq> set example_attr_headers"
    by (simp add: example_attr_row_def example_attr_headers_def)
  have a1: "attributes_of ({''Lat'', ''Lon'', ''Address''} \<union> name_consumed example_attr_headers (Some ''Name''))
      example_attr_row = [(''Phone'', ''555'')]"
    by (simp add: attributes_of_def name_consumed_def example_attr_row_def example_attr_headers_def)
  have a2: "attributes_of ({''Address''} \<union> name_consumed example_attr_headers (Some ''Name''))
      example_attr_row = [(''Lat'', ''10.0''), (''Lon'', ''20.0''), (''Phone'', ''555'')]"
    by (simp add: attributes_of_def name_consumed_def example_attr_row_def example_attr_headers_def)
  have run: "convert_csv_to_kml example_ops remdups True example_geocoder example_rows
       [''Address'', ''Name''] ''people'' ''Address'' (Some ''Name'') False None None
       = Inr (projr example_run)"
    using example_run_Inr by (simp add: example_run_def)
  have pm: "\<lparr>pm_name = Str ''Bob'', pm_coordinates = (- 7105 / 100, 4236 / 100 :: rat),
            pm_description = Str ''1 Main St, City'', pm_extended_data = []\<rparr>
      \<in> set (placemarks (projr example_run))"
    by code_simp
  note c1 = attributes_exclude_consumed_columns [where r = example_attr_row
      and headers = example_attr_headers and ops = example_ops
      and address_column = "''Address''" and name_column = "Some ''Name''"
      and lat_c = "''Lat''" and lon_c = "''Lon''" and idx = 1 and coords = "(20, 10)",
      THEN conjunct1, THEN mp, OF keys, unfolded a1]
  note c2 = attributes_exclude_consumed_columns [where r = example_attr_row
      and headers = example_attr_headers and ops = example_ops
      and address_col = "''Address''" and name_column = "Some ''Name''"
      and address = "Str ''1 Main St, City''" and coords = "(20, 10)",
      THEN conjunct2, THEN conjunct1, THEN mp, OF keys, unfolded a2]
  note c3 = attributes_exclude_consumed_columns [where ops = example_ops and set_order = remdups
      and geopy_available = True and geocoder = example_geocoder and data = example_rows
      and headers = "[''Address'', ''Name'']" and document_name = "''people''"
      and address_column = "''Address''" and name_column = "Some ''Name''"
      and skip_geocoding = False and lat_column = None and lon_column = None
      and res = "projr example_run"
      and pm = "\<lparr>pm_name = Str ''Bob'', pm_coordinates = (- 7105 / 100, 4236 / 100 :: rat),
            pm_description = Str ''1 Main St, City'', pm_extended_data = []\<rparr>",
      THEN conjunct2, THEN conjunct2, THEN conjunct1, THEN mp, OF conjI [OF run pm]]
  from c3 have c3': "\<exists>r \<in> set example_rows. \<exists>coords col.
      find_address_column [''Address'', ''Name''] ''Address'' = Inr col \<and>
      \<lparr>pm_name = Str ''Bob'', pm_coordinates = (- 7105 / 100, 4236 / 100 :: rat),
       pm_description = Str ''1 Main St, City'', pm_extended_data = []\<rparr>
      = geo_placemark [''Address'', ''Name''] col (Some ''Name'') r (row_address col r) coords"
    by (simp only: simp_thms if_False)
  show ?thesis
    by (intro conjI) (fact c1 c2 c3')+
qed

lemma texts_data_elements:
  "concat (map (texts \<circ> data_element) ed) = map (\<lambda>kv. py_str (snd kv)) ed"
  by (induction ed) (simp_all add: data_element_def text_element_def)

text \<open>
  Claim C10.  A marker whose description is empty (or \<open>None\<close>) gets no
  \<open>description\<close> element: its children are \<open>name\<close>, \<open>styleUrl\<close>, the
  \<open>ExtendedData\<close> block when there are attributes, and \<open>Point\<close>; the only text under
  it is the name, the style reference, the attribute values and the coordinates, so no
  table markup is written; and the \<open>ExtendedData\<close> block still holds every attribute.
\<close>

theorem empty_description_omits_table:
  "\<not> truthy (pm_description pm) \<longrightarrow>
     map el_tag (el_children (placemark_element ops pm))
       = (if pm_extended_data pm = [] then [''name'', ''styleUrl'', ''Point'']
          else [''name'', ''styleUrl'', ''ExtendedData'', ''Point'']) \<and>
     texts (placemark_element ops pm)
       = [py_str (pm_name pm), ''#defaultStyle'']
         @ map (\<lambda>kv. py_str (snd kv)) (pm_extended_data pm)
         @ [frepr ops (fst (pm_coordinates pm)) @ '','' @
            frepr ops (snd (pm_coordinates pm)) @ '',0''] \<and>
     block_entries (placemark_element ops pm)
       = map (\<lambda>kv. (fst kv, py_str (snd kv))) (pm_extended_data pm)"
proof
  assume h: "\<not> truthy (pm_description pm)"
  then have "map el_tag (el_children (placemark_element ops pm))
       = (if pm_extended_data pm = [] then [''name'', ''styleUrl'', ''Point'']
          else [''name'', ''styleUrl'', ''ExtendedData'', ''Point''])"
    by (simp add: placemark_element_def text_element_def)
  moreover from h have "texts (placemark_element ops pm)
       = [py_str (pm_name pm), ''#defaultStyle'']
         @ map (\<lambda>kv. py_str (snd kv)) (pm_extended_data pm)
         @ [frepr ops (fst (pm_coordinates pm)) @ '','' @
            frepr ops (snd (pm_coordinates pm)) @ '',0'']"
    by (simp add: placemark_element_def text_element_def texts_data_elements)
  ultimately show "map el_tag (el_children (placemark_element ops pm))
       = (if pm_extended_data pm = [] then [''name'', ''styleUrl'', ''Point'']
          else [''name'', ''styleUrl'', ''ExtendedData'', ''Point'']) \<and>
     texts (placemark_element ops pm)
       = [py_str (pm_name pm), ''#defaultStyle'']
         @ map (\<lambda>kv. py_str (snd kv)) (pm_extended_data pm)
         @ [frepr ops (fst (pm_coordinates pm)) @ '','' @
            frepr ops (snd (pm_coordinates pm)) @ '',0''] \<and>
     block_entries (placemark_element ops pm)
       = map (\<lambda>kv. (fst kv, py_str (snd kv))) (pm_extended_data pm)"
    by (simp add: block_entries_placemark)
qed

theorem empty_description_omits_table_witness:
  "\<not> truthy (pm_description (example_marker\<lparr>pm_description := Str []\<rparr>)) \<and>
   map el_tag (el_children (placemark_element example_ops
       (example_marker\<lparr>pm_description := Str []\<rparr>)))
     = [''name'', ''styleUrl'', ''ExtendedData'', ''Point''] \<and>
   texts (placemark_element example_ops (example_marker\<lparr>pm_description := Str []\<rparr>))
     = [''Bob'', ''#defaultStyle'', ''555'', ''20.0,10.0,0''] \<and>
   block_entries (placemark_element example_ops (example_marker\<lparr>pm_description := Str []\<rparr>))
     = [(''Phone'', ''555'')]"
proof -
  have h: "\<not> truthy (pm_description (example_marker\<lparr>pm_description := Str []\<rparr>))"
    by simp
  from empty_description_omits_table [where ops = example_ops
      and pm = "example_marker\<lparr>pm_description := Str []\<rparr>", THEN mp, OF h] h
  show ?thesis
    by (simp add: example_marker_def example_ops_def)
qed

lemma escape_text_no_lt: "CHR ''<'' \<notin> set (escape_text s)"
  by (induction s) (auto simp: escape_text_def)

text \<open>
  Claim C6 fails on the table region.  The description of a marker with attributes is
  one text node that starts with the address and goes on with the \<open>CDATA\<close> marker and
  the table markup; the serializer escapes all of it like any other text, so the written
  document holds \<open>&lt;![CDATA[&lt;table ...\<close> and no \<open>CDATA\<close> section.
\<close>

theorem cdata_table_is_escaped:
  "description_text example_marker
     = ''1 Main St'' @ [CHR 0x0A]
       @ ''<![CDATA[<table border='' @ [CHR 0x27] @ ''1'' @ [CHR 0x27] @ ''>'' @ [CHR 0x0A]
       @ ''<tr><td><b>Phone</b></td><td>555</td></tr>'' @ [CHR 0x0A]
       @ ''</table>]]>'' \<and>
   writexml [] (text_element ''description'' (description_text example_marker))
     = ''<description>1 Main St'' @ [CHR 0x0A]
       @ ''&lt;![CDATA[&lt;table border='' @ [CHR 0x27] @ ''1'' @ [CHR 0x27] @ ''&gt;'' @ [CHR 0x0A]
       @ ''&lt;tr&gt;&lt;td&gt;&lt;b&gt;Phone&lt;/b&gt;&lt;/td&gt;&lt;td&gt;555&lt;/td&gt;&lt;/tr&gt;''
       @ [CHR 0x0A] @ ''&lt;/table&gt;]]&gt;</description>'' @ [CHR 0x0A] \<and>
   \<not> isl (generate_kml example_ops [example_marker] ''doc'') \<and>
   sublist ''&lt;![CDATA[&lt;table''
     (projr (generate_kml example_ops [example_marker] ''doc'')) \<and>
   \<not> sublist ''<![CDATA['' (projr (generate_kml example_ops [example_marker] ''doc'')) \<and>
   CHR ''<'' \<notin> set (escape_text s)"
proof (intro conjI)
  show "CHR ''<'' \<notin> set (escape_text s)" by (rule escape_text_no_lt)
qed code_simp+

end
